theory Spec2Isabelle
  imports Main
begin

section \<open>Values, errors and the logger\<close>

text \<open>
  The model follows \<open>next-server-wrap\<close>: the unified pipeline (\<open>runPipeline\<close>), the
  retry, rate-limit and cache middleware, the error handler and the HTTP result handlers.
  JavaScript numbers that hold counts, statuses and millisecond values are modelled as
  \<open>int\<close>; a promise that rejects (or a \<open>throw\<close>) is the \<open>Inl\<close> branch of a sum.
\<close>

subsection \<open>Rendering numbers in template strings\<close>

definition digit :: "nat \<Rightarrow> char" where
  "digit n = ''0123456789'' ! n"

function string_of_nat :: "nat \<Rightarrow> string" where
  "string_of_nat n =
     (if n < 10 then [digit n] else string_of_nat (n div 10) @ [digit (n mod 10)])"
  by pat_completeness auto
termination
  by (relation "measure (\<lambda>n. n)") auto

declare string_of_nat.simps [simp del]

definition string_of_int :: "int \<Rightarrow> string" where
  "string_of_int i =
     (if i < 0 then ''-'' @ string_of_nat (nat (- i)) else string_of_nat (nat i))"

subsection \<open>ApiError and thrown values (error.ts, response.ts)\<close>

record validation_error_detail =
  field :: string
  detail_message :: string

record api_error =
  message :: string
  status :: int
  code :: string
  errors :: "validation_error_detail list option"

text \<open>
  Anything JavaScript can throw: an \<open>ApiError\<close>, another \<open>Error\<close> (name and message),
  the value \<open>undefined\<close>, or some other non-Error value (kept as its \<open>String(...)\<close> text).
\<close>

datatype thrown =
  ApiErr api_error
  | PlainError string string
  | Undefined
  | NonError string


definition ApiError :: "string \<Rightarrow> int \<Rightarrow> string \<Rightarrow> api_error" where
  "ApiError m s c = \<lparr>message = m, status = s, code = c, errors = None\<rparr>"

definition unauthorized :: api_error where
  "unauthorized = ApiError ''Authentication required'' 401 ''UNAUTHORIZED''"

definition forbidden :: "string \<Rightarrow> api_error" where
  "forbidden m = ApiError m 403 ''FORBIDDEN''"

definition tooManyRequests :: api_error where
  "tooManyRequests = ApiError ''Rate limit exceeded'' 429 ''TOO_MANY_REQUESTS''"

definition internalError :: api_error where
  "internalError = ApiError ''Internal server error'' 500 ''INTERNAL_ERROR''"

subsection \<open>Users, audit events and logger calls (types.ts)\<close>

record base_user =
  user_id :: string
  user_attrs :: "(string \<times> string) list"

definition ANONYMOUS_USER :: base_user where
  "ANONYMOUS_USER = \<lparr>user_id = '''', user_attrs = []\<rparr>"

record audit_event =
  audit_requestId :: string
  audit_user :: base_user
  action :: string
  resource :: string
  audit_durationMs :: int
  audit_status :: int
  success :: bool
  errorCode :: "string option"
  timestamp :: int

datatype meta_value = MStr string | MNum int | MUndef

type_synonym meta = "(string \<times> meta_value) list"

datatype log_call =
  Debug string meta
  | Info string meta
  | Warn string meta
  | ErrorLog string "thrown option" meta
  | Audit audit_event

subsection \<open>The world an invocation runs in\<close>

text \<open>
  \<open>app\<close> is the state the user's handler owns, \<open>now\<close> is the clock read by
  \<open>Date.now()\<close>, \<open>handler_calls\<close> counts invocations of the handler, \<open>verify_calls\<close>
  invocations of the auth adapter's \<open>verify\<close>, \<open>logs\<close> are the calls received by the
  logger adapter, \<open>sleeps\<close> the delays passed to \<open>setTimeout\<close> by the retry wrapper,
  \<open>counters\<close> and \<open>store\<close> the counters and the entries kept by the cache adapter.
\<close>

record 'b cached_response =
  cached_body :: 'b
  cached_status :: int
  cached_headers :: "string \<rightharpoonup> string"

record ('s, 'b) world =
  app :: 's
  now :: int
  handler_calls :: nat
  verify_calls :: nat
  logs :: "log_call list"
  sleeps :: "int list"
  counters :: "string \<Rightarrow> int"
  store :: "string \<rightharpoonup> 'b cached_response"

text \<open>\<open>logger?.method(...)\<close>: the call happens only when a logger adapter is present.\<close>

definition log_to :: "bool \<Rightarrow> log_call \<Rightarrow> ('s, 'b) world \<Rightarrow> ('s, 'b) world" where
  "log_to logger c w = (if logger then w\<lparr>logs := logs w @ [c]\<rparr> else w)"

text \<open>\<open>await new Promise((resolve) => setTimeout(resolve, delay))\<close>\<close>

definition sleep :: "int \<Rightarrow> ('s, 'b) world \<Rightarrow> ('s, 'b) world" where
  "sleep delay w = w\<lparr>now := now w + max 0 delay, sleeps := sleeps w @ [delay]\<rparr>"

text \<open>
  A handler is user code: given its context and its own state it settles, after some
  duration, with a value or a thrown error. \<open>runHandler\<close> is one invocation of it.
\<close>

type_synonym ('c, 'r, 's) handler = "'c \<Rightarrow> 's \<Rightarrow> (thrown + 'r) \<times> nat \<times> 's"

definition runHandler ::
  "('c, 'r, 's) handler \<Rightarrow> 'c \<Rightarrow> ('s, 'b) world \<Rightarrow> (thrown + 'r) \<times> ('s, 'b) world" where
  "runHandler h ctx w =
     (case h ctx (app w) of
        (r, d, s') \<Rightarrow>
          (r, w\<lparr>app := s', now := now w + int d, handler_calls := Suc (handler_calls w)\<rparr>))"

section \<open>Retry (middleware/retry.ts)\<close>

record retry_config =
  attempts :: int
  delayMs :: "int option"
  retryOn :: "int list option"
  shouldRetry :: "(thrown \<Rightarrow> int \<Rightarrow> bool) option"

definition DEFAULT_RETRY_STATUS_CODES :: "int list" where
  "DEFAULT_RETRY_STATUS_CODES = [502, 503, 504]"

text \<open>The value of the local \<open>shouldRetryThis\<close> after the two branches of the catch block.\<close>

definition shouldRetryThis :: "retry_config \<Rightarrow> thrown \<Rightarrow> int \<Rightarrow> bool" where
  "shouldRetryThis config error attempt =
     (case shouldRetry config of
        Some f \<Rightarrow> f error attempt
      | None \<Rightarrow>
          (case error of
             ApiErr e \<Rightarrow>
               status e \<in> set (case retryOn config of
                                 None \<Rightarrow> DEFAULT_RETRY_STATUS_CODES | Some l \<Rightarrow> l)
           | _ \<Rightarrow> False))"

definition retry_delay :: "retry_config \<Rightarrow> int \<Rightarrow> int" where
  "retry_delay config attempt =
     (case delayMs config of None \<Rightarrow> 100 | Some d \<Rightarrow> d) * 2 ^ nat (attempt - 1)"

definition retry_warning :: "retry_config \<Rightarrow> string \<Rightarrow> int \<Rightarrow> log_call" where
  "retry_warning config requestId attempt =
     Warn (''Retry attempt '' @ string_of_int attempt @ ''/'' @ string_of_int (attempts config)
           @ '' after '' @ string_of_int (retry_delay config attempt) @ ''ms'')
          [(''requestId'', MStr requestId)]"

text \<open>
  The \<open>for (let attempt = 1; attempt <= attempts; attempt++)\<close> loop, with \<open>lastError\<close>
  carried along; leaving the loop reaches the trailing \<open>throw lastError\<close>.
\<close>

function withRetry_loop ::
  "(('s, 'b) world \<Rightarrow> (thrown + 'r) \<times> ('s, 'b) world) \<Rightarrow> retry_config \<Rightarrow> bool \<Rightarrow> string \<Rightarrow>
   int \<Rightarrow> thrown \<Rightarrow> ('s, 'b) world \<Rightarrow> (thrown + 'r) \<times> ('s, 'b) world" where
  "withRetry_loop fn config logger requestId attempt lastError w =
     (if attempt \<le> attempts config then
        (case fn w of
           (Inr v, w') \<Rightarrow> (Inr v, w')
         | (Inl error, w') \<Rightarrow>
             if \<not> shouldRetryThis config error attempt \<or> attempt = attempts config
             then (Inl error, w')
             else withRetry_loop fn config logger requestId (attempt + 1) error
                    (sleep (retry_delay config attempt)
                       (log_to logger (retry_warning config requestId attempt) w')))
      else (Inl lastError, w))"
  by pat_completeness auto
termination
  by (relation "measure (\<lambda>(fn, config, logger, requestId, attempt, lastError, w).
                   nat (attempts config + 1 - attempt))") auto

declare withRetry_loop.simps [simp del]

definition withRetry ::
  "(('s, 'b) world \<Rightarrow> (thrown + 'r) \<times> ('s, 'b) world) \<Rightarrow> retry_config \<Rightarrow> bool \<Rightarrow> string \<Rightarrow>
   ('s, 'b) world \<Rightarrow> (thrown + 'r) \<times> ('s, 'b) world" where
  "withRetry fn config logger requestId w =
     withRetry_loop fn config logger requestId 1 Undefined w"

section \<open>Timeout (middleware/timeout.ts)\<close>

text \<open>
  Modelled from the spec: the Timeout failure of \<open>middleware/timeout.ts\<close>, which is not
  among the sources. The spec fixes its status 408 and its code \<open>TIMEOUT\<close>, not the
  text of its message.
\<close>

definition timeoutError :: api_error where
  "timeoutError = ApiError ''Request timeout'' 408 ''TIMEOUT''"

text \<open>
  Modelled from the spec: \<open>withTimeout\<close> of \<open>middleware/timeout.ts\<close>, which is not
  among the sources. The spec's timeout guard races an already started operation against
  a deadline and throws the Timeout failure if the operation has not settled within
  \<open>ms\<close>; the operation is not cancelled, the guard only stops waiting. Here the started
  operation is the world transformer \<open>p\<close>: its effects stay in the world, and on a
  timeout the caller goes on at the deadline.
\<close>

definition withTimeout ::
  "(('s, 'b) world \<Rightarrow> (thrown + 'r) \<times> ('s, 'b) world) \<Rightarrow> int \<Rightarrow>
   ('s, 'b) world \<Rightarrow> (thrown + 'r) \<times> ('s, 'b) world" where
  "withTimeout p ms w =
     (case p w of
        (r, w') \<Rightarrow>
          if now w' - now w \<le> ms then (r, w')
          else (Inl (ApiErr timeoutError), w'\<lparr>now := now w + ms\<rparr>))"

section \<open>Rate limiting (middleware/rate-limit.ts)\<close>

record rate_limit_config =
  rl_max :: int
  windowMs :: int

record rate_limit_result =
  allowed :: bool
  count :: int
  resetAt :: int

definition DEFAULT_RATE_LIMITS :: "string \<rightharpoonup> rate_limit_config" where
  "DEFAULT_RATE_LIMITS =
     [''GET'' \<mapsto> \<lparr>rl_max = 200, windowMs = 60000\<rparr>,
      ''POST'' \<mapsto> \<lparr>rl_max = 50, windowMs = 60000\<rparr>,
      ''PUT'' \<mapsto> \<lparr>rl_max = 50, windowMs = 60000\<rparr>,
      ''PATCH'' \<mapsto> \<lparr>rl_max = 50, windowMs = 60000\<rparr>,
      ''DELETE'' \<mapsto> \<lparr>rl_max = 20, windowMs = 60000\<rparr>]"

text \<open>
  The cache adapter's \<open>increment\<close>, by its interface contract in \<open>types.ts\<close>: "Atomic
  increment - returns new value. Creates key with value 1 if doesn't exist". Expiry of
  the counter after \<open>ttlMs\<close> is the adapter's business and is not modelled: the counters
  describe one window.
\<close>

definition cache_increment ::
  "string \<Rightarrow> int \<Rightarrow> ('s, 'b) world \<Rightarrow> int \<times> ('s, 'b) world" where
  "cache_increment key ttlMs w =
     (counters w key + 1, w\<lparr>counters := (counters w)(key := counters w key + 1)\<rparr>)"

text \<open>The first argument says whether a cache adapter is present.\<close>

definition checkRateLimit ::
  "bool \<Rightarrow> string \<Rightarrow> rate_limit_config \<Rightarrow> ('s, 'b) world \<Rightarrow>
   rate_limit_result \<times> ('s, 'b) world" where
  "checkRateLimit cache key config w =
     (if \<not> cache then (\<lparr>allowed = True, count = 0, resetAt = now w + windowMs config\<rparr>, w)
      else
        (case cache_increment key (windowMs config) w of
           (n, w') \<Rightarrow>
             (\<lparr>allowed = (n \<le> rl_max config), count = n,
               resetAt = now w' + windowMs config\<rparr>, w')))"

definition buildRateLimitKey :: "string \<Rightarrow> string \<Rightarrow> string \<Rightarrow> string" where
  "buildRateLimitKey method pathname identifier =
     ''ratelimit:'' @ method @ '':'' @ pathname @ '':'' @ identifier"

section \<open>Validation helpers (wrapper/pipeline.ts)\<close>

datatype property_key = KeyStr string | KeyNum nat

record zod_issue =
  path :: "property_key list"
  issue_message :: string

fun String_key :: "property_key \<Rightarrow> string" where
  "String_key (KeyStr s) = s"
| "String_key (KeyNum n) = string_of_nat n"

fun join :: "string \<Rightarrow> string list \<Rightarrow> string" where
  "join sep [] = []"
| "join sep [x] = x"
| "join sep (x # y # ys) = x @ sep @ join sep (y # ys)"

definition formatZodErrors :: "zod_issue list \<Rightarrow> validation_error_detail list" where
  "formatZodErrors issues =
     map (\<lambda>issue. \<lparr>field = join ''.'' (map String_key (path issue)),
                    detail_message = issue_message issue\<rparr>) issues"

text \<open>
  A schema is opaque: \<open>safeParseAsync\<close> either fails with a list of issues or succeeds
  with the parsed data. A slot holding \<open>undefined\<close> is \<open>None\<close>.
\<close>

type_synonym 'v schema = "'v option \<Rightarrow> zod_issue list + 'v option"

definition validateSchema :: "'v schema \<Rightarrow> 'v option \<Rightarrow> string \<Rightarrow> thrown + 'v option" where
  "validateSchema schema data fieldName =
     (case schema data of
        Inl issues \<Rightarrow>
          Inl (ApiErr \<lparr>message = ''Validation failed for '' @ fieldName, status = 422,
                       code = ''VALIDATION_ERROR'', errors = Some (formatZodErrors issues)\<rparr>)
      | Inr v \<Rightarrow> Inr v)"

section \<open>The unified pipeline (wrapper/pipeline.ts)\<close>

record auth_request_context =
  ctx_headers :: "string \<rightharpoonup> string"
  ctx_cookies :: "string \<rightharpoonup> string"

record auth_adapter =
  verify :: "auth_request_context \<Rightarrow> base_user option"
  hasRole :: "base_user \<Rightarrow> string list \<Rightarrow> bool"
  isTenantValid :: "(base_user \<Rightarrow> auth_request_context \<Rightarrow> bool) option"

text \<open>The cache and logger adapters keep their state in the world; here is their presence.\<close>

record pipeline_adapters =
  adapter_auth :: "auth_adapter option"
  adapter_cache :: bool
  adapter_logger :: bool

record 'v validation_config =
  v_params :: "'v schema option"
  v_query :: "'v schema option"
  v_body :: "'v schema option"

datatype rate_limit_option = RateLimitFalse | RateLimitUnset | RateLimit rate_limit_config

record 'v pipeline_options =
  auth :: "string list option"
  tenantScoped :: bool
  rateLimit :: rate_limit_option
  timeout :: "int option"
  retry :: "retry_config option"
  audit :: "bool option"
  validation :: "'v validation_config option"

record pipeline_defaults =
  default_timeout :: "int option"
  default_rateLimit :: "string \<rightharpoonup> rate_limit_config"

record 'v input_slots =
  in_params :: "'v option"
  in_query :: "'v option"
  in_body :: "'v option"

record pipeline_meta =
  meta_requestId :: string
  meta_user :: base_user
  meta_durationMs :: int
  meta_method :: string
  meta_path :: string

text \<open>The pipeline's own \<open>RateLimitResult\<close>; \<open>runPipeline\<close> always fills both numbers.\<close>

record pipeline_rate_limit_result =
  rl_allowed :: bool
  limit :: int
  rl_resetAt :: int

record ('v, 'c, 'r, 's, 'b) pipeline_input =
  requestId :: string
  http_method :: string
  path_name :: string
  getAuthContext :: "thrown + auth_request_context"
  getIdentifier :: "base_user \<Rightarrow> string"
  getRawInput :: "thrown + 'v input_slots"
  buildContext :: "base_user \<Rightarrow> 'v input_slots \<Rightarrow> 'c"
  executeHandler :: "('c, 'r, 's) handler"
  onRateLimited ::
    "pipeline_rate_limit_result \<Rightarrow> ('s, 'b) world \<Rightarrow> (thrown + 'r) \<times> ('s, 'b) world"
  onSuccess :: "'r \<Rightarrow> pipeline_meta \<Rightarrow> ('s, 'b) world \<Rightarrow> (thrown + 'r) \<times> ('s, 'b) world"
  onError :: "thrown \<Rightarrow> pipeline_meta \<Rightarrow> ('s, 'b) world \<Rightarrow> (thrown + 'r) \<times> ('s, 'b) world"
  options :: "'v pipeline_options"
  adapters :: pipeline_adapters
  defaults :: pipeline_defaults

text \<open>JavaScript truthiness of an optional number, and \<open>a || b\<close> on two of them.\<close>

definition truthy_num :: "int option \<Rightarrow> bool" where
  "truthy_num x = (case x of None \<Rightarrow> False | Some n \<Rightarrow> n \<noteq> 0)"

definition or_num :: "int option \<Rightarrow> int option \<Rightarrow> int option" where
  "or_num a b = (if truthy_num a then a else b)"

subsection \<open>Step 2: authentication\<close>

definition authenticate ::
  "('v, 'c, 'r, 's, 'b) pipeline_input \<Rightarrow> ('s, 'b) world \<Rightarrow>
   (thrown + base_user) \<times> ('s, 'b) world" where
  "authenticate inp w =
     (case auth (options inp) of
        None \<Rightarrow> (Inr ANONYMOUS_USER, w)
      | Some roles \<Rightarrow>
          (case adapter_auth (adapters inp) of
             None \<Rightarrow>
               (Inl (PlainError ''Error'' ''Auth adapter not configured but auth is required''), w)
           | Some a \<Rightarrow>
               (case getAuthContext inp of
                  Inl e \<Rightarrow> (Inl e, w)
                | Inr authCtx \<Rightarrow>
                    (let w' = w\<lparr>verify_calls := Suc (verify_calls w)\<rparr> in
                     case verify a authCtx of
                       None \<Rightarrow> (Inl (ApiErr unauthorized), w')
                     | Some authResult \<Rightarrow>
                         if 0 < length roles \<and> \<not> hasRole a authResult roles
                         then (Inl (ApiErr (forbidden ''Access denied'')), w')
                         else (Inr authResult, w')))))"

subsection \<open>Step 3: tenant scoping\<close>

definition tenantScoping ::
  "('v, 'c, 'r, 's, 'b) pipeline_input \<Rightarrow> base_user \<Rightarrow> thrown + unit" where
  "tenantScoping inp user =
     (if tenantScoped (options inp) then
        (case (case adapter_auth (adapters inp) of None \<Rightarrow> None | Some a \<Rightarrow> isTenantValid a) of
           None \<Rightarrow>
             Inl (PlainError ''Error''
                    ''isTenantValid must be defined in auth adapter when tenantScoped is true'')
         | Some check \<Rightarrow>
             (case getAuthContext inp of
                Inl e \<Rightarrow> Inl e
              | Inr authCtx \<Rightarrow>
                  if check user authCtx then Inr ()
                  else Inl (ApiErr (forbidden ''Tenant context required''))))
      else Inr ())"

subsection \<open>Step 4: rate limiting\<close>

text \<open>\<open>rateLimit || defaults?.rateLimit?.[method] || DEFAULT_RATE_LIMITS[method]\<close>\<close>

definition rateLimitConfig ::
  "('v, 'c, 'r, 's, 'b) pipeline_input \<Rightarrow> rate_limit_config option" where
  "rateLimitConfig inp =
     (case rateLimit (options inp) of
        RateLimit c \<Rightarrow> Some c
      | _ \<Rightarrow>
          (case default_rateLimit (defaults inp) (http_method inp) of
             Some c \<Rightarrow> Some c
           | None \<Rightarrow> DEFAULT_RATE_LIMITS (http_method inp)))"

text \<open>The result is the argument handed to \<open>onRateLimited\<close> when the request is rejected.\<close>

definition rateLimiting ::
  "('v, 'c, 'r, 's, 'b) pipeline_input \<Rightarrow> base_user \<Rightarrow> ('s, 'b) world \<Rightarrow>
   pipeline_rate_limit_result option \<times> ('s, 'b) world" where
  "rateLimiting inp user w =
     (if rateLimit (options inp) \<noteq> RateLimitFalse \<and> adapter_cache (adapters inp) then
        (let identifier = getIdentifier inp user in
         case rateLimitConfig inp of
           None \<Rightarrow> (None, w)
         | Some config \<Rightarrow>
             (case checkRateLimit (adapter_cache (adapters inp))
                     (buildRateLimitKey (http_method inp) (path_name inp) identifier) config w of
                (result, w') \<Rightarrow>
                  if \<not> allowed result
                  then (Some \<lparr>rl_allowed = False, limit = rl_max config,
                               rl_resetAt = resetAt result\<rparr>, w')
                  else (None, w')))
      else (None, w))"

subsection \<open>Step 5: input validation\<close>

definition validateSlot ::
  "'v validation_config option \<Rightarrow> ('v validation_config \<Rightarrow> 'v schema option) \<Rightarrow>
   'v option \<Rightarrow> string \<Rightarrow> thrown + 'v option" where
  "validateSlot vcfg slot data fieldName =
     (case (case vcfg of None \<Rightarrow> None | Some v \<Rightarrow> slot v) of
        Some schema \<Rightarrow> validateSchema schema data fieldName
      | None \<Rightarrow> Inr data)"

definition validateInput ::
  "'v validation_config option \<Rightarrow> 'v input_slots \<Rightarrow> thrown + 'v input_slots" where
  "validateInput vcfg rawInput =
     (case validateSlot vcfg v_params (in_params rawInput) ''params'' of
        Inl e \<Rightarrow> Inl e
      | Inr p \<Rightarrow>
          (case validateSlot vcfg v_query (in_query rawInput) ''query'' of
             Inl e \<Rightarrow> Inl e
           | Inr q \<Rightarrow>
               (case validateSlot vcfg v_body (in_body rawInput) ''body'' of
                  Inl e \<Rightarrow> Inl e
                | Inr b \<Rightarrow> Inr \<lparr>in_params = p, in_query = q, in_body = b\<rparr>)))"

subsection \<open>Step 7: handler execution with retry and timeout\<close>

definition executeWithRetryAndTimeout ::
  "('v, 'c, 'r, 's, 'b) pipeline_input \<Rightarrow> 'c \<Rightarrow> ('s, 'b) world \<Rightarrow>
   (thrown + 'r) \<times> ('s, 'b) world" where
  "executeWithRetryAndTimeout inp ctx w =
     (let effectiveTimeout = or_num (timeout (options inp)) (default_timeout (defaults inp));
          maybeRetry =
            (case retry (options inp) of
               Some r \<Rightarrow>
                 withRetry (runHandler (executeHandler inp) ctx) r
                   (adapter_logger (adapters inp)) (requestId inp)
             | None \<Rightarrow> runHandler (executeHandler inp) ctx)
      in case effectiveTimeout of
           Some t \<Rightarrow> if t \<noteq> 0 then withTimeout maybeRetry t w else maybeRetry w
         | None \<Rightarrow> maybeRetry w)"

subsection \<open>Steps 8 to 10: logging, audit, result conversion\<close>

definition audit_enabled :: "('v, 'c, 'r, 's, 'b) pipeline_input \<Rightarrow> bool" where
  "audit_enabled inp = (audit (options inp) \<noteq> Some False \<and> adapter_logger (adapters inp))"

definition pipelineMeta ::
  "('v, 'c, 'r, 's, 'b) pipeline_input \<Rightarrow> base_user \<Rightarrow> int \<Rightarrow> pipeline_meta" where
  "pipelineMeta inp user durationMs =
     \<lparr>meta_requestId = requestId inp, meta_user = user, meta_durationMs = durationMs,
      meta_method = http_method inp, meta_path = path_name inp\<rparr>"

definition successAudit ::
  "('v, 'c, 'r, 's, 'b) pipeline_input \<Rightarrow> base_user \<Rightarrow> int \<Rightarrow> int \<Rightarrow> audit_event" where
  "successAudit inp user durationMs t =
     \<lparr>audit_requestId = requestId inp, audit_user = user, action = http_method inp,
      resource = path_name inp, audit_durationMs = durationMs, audit_status = 200,
      success = True, errorCode = None, timestamp = t\<rparr>"

definition failureAudit ::
  "('v, 'c, 'r, 's, 'b) pipeline_input \<Rightarrow> base_user \<Rightarrow> int \<Rightarrow> thrown \<Rightarrow> int \<Rightarrow> audit_event" where
  "failureAudit inp user durationMs error t =
     \<lparr>audit_requestId = requestId inp, audit_user = user, action = http_method inp,
      resource = path_name inp, audit_durationMs = durationMs,
      audit_status = (case error of ApiErr e \<Rightarrow> status e | _ \<Rightarrow> 500),
      success = False,
      errorCode = Some (case error of ApiErr e \<Rightarrow> code e | _ \<Rightarrow> ''INTERNAL_ERROR''),
      timestamp = t\<rparr>"

text \<open>
  Steps 1 to 7 of the \<open>try\<close> block end in one of three ways: a step throws (the error
  comes with the value the variable \<open>user\<close> holds at that moment, which the \<open>catch\<close>
  block reads), the rate limiter rejects, or the handler execution settles with a result.
\<close>

datatype 'r steps_outcome =
  Threw thrown base_user
  | RateLimited pipeline_rate_limit_result base_user
  | Executed 'r base_user

text \<open>Steps 5 to 7, reached when the request was admitted by the rate limiter.\<close>

definition runPipeline_admitted ::
  "('v, 'c, 'r, 's, 'b) pipeline_input \<Rightarrow> base_user \<Rightarrow> ('s, 'b) world \<Rightarrow>
   'r steps_outcome \<times> ('s, 'b) world" where
  "runPipeline_admitted inp user w =
     (case getRawInput inp of
        Inl e \<Rightarrow> (Threw e user, w)
      | Inr rawInput \<Rightarrow>
          (case validateInput (validation (options inp)) rawInput of
             Inl e \<Rightarrow> (Threw e user, w)
           | Inr validatedInput \<Rightarrow>
               (case executeWithRetryAndTimeout inp (buildContext inp user validatedInput) w of
                  (Inl e, w1) \<Rightarrow> (Threw e user, w1)
                | (Inr result, w1) \<Rightarrow> (Executed result user, w1))))"

definition runPipeline_steps ::
  "('v, 'c, 'r, 's, 'b) pipeline_input \<Rightarrow> ('s, 'b) world \<Rightarrow>
   'r steps_outcome \<times> ('s, 'b) world" where
  "runPipeline_steps inp w =
     (let w1 = log_to (adapter_logger (adapters inp))
                 (Info (http_method inp @ '' '' @ path_name inp)
                    [(''requestId'', MStr (requestId inp)),
                     (''method'', MStr (http_method inp)),
                     (''path'', MStr (path_name inp))]) w
      in case authenticate inp w1 of
           (Inl e, w2) \<Rightarrow> (Threw e ANONYMOUS_USER, w2)
         | (Inr user, w2) \<Rightarrow>
             (case tenantScoping inp user of
                Inl e \<Rightarrow> (Threw e user, w2)
              | Inr _ \<Rightarrow>
                  (case rateLimiting inp user w2 of
                     (Some rl, w3) \<Rightarrow> (RateLimited rl user, w3)
                   | (None, w3) \<Rightarrow> runPipeline_admitted inp user w3)))"

text \<open>Steps 8 and 9: completion log, audit record, success converter.\<close>

definition runPipeline_complete ::
  "('v, 'c, 'r, 's, 'b) pipeline_input \<Rightarrow> int \<Rightarrow> base_user \<Rightarrow> 'r \<Rightarrow> ('s, 'b) world \<Rightarrow>
   (thrown + 'r) \<times> ('s, 'b) world" where
  "runPipeline_complete inp startTime user result w =
     (let durationMs = now w - startTime;
          w1 = log_to (adapter_logger (adapters inp))
                 (Info (http_method inp @ '' '' @ path_name inp @ '' completed'')
                    [(''requestId'', MStr (requestId inp)),
                     (''durationMs'', MNum durationMs)]) w;
          w2 = (if audit_enabled inp
                then log_to True (Audit (successAudit inp user durationMs (now w1))) w1
                else w1)
      in onSuccess inp result (pipelineMeta inp user durationMs) w2)"

text \<open>The \<open>catch\<close> block.\<close>

definition runPipeline_catch ::
  "('v, 'c, 'r, 's, 'b) pipeline_input \<Rightarrow> int \<Rightarrow> base_user \<Rightarrow> thrown \<Rightarrow> ('s, 'b) world \<Rightarrow>
   (thrown + 'r) \<times> ('s, 'b) world" where
  "runPipeline_catch inp startTime user error w =
     (let durationMs = now w - startTime;
          st = (case error of ApiErr e \<Rightarrow> status e | _ \<Rightarrow> 500);
          w1 = log_to (adapter_logger (adapters inp))
                 (Info (http_method inp @ '' '' @ path_name inp @ '' '' @ string_of_int st)
                    [(''requestId'', MStr (requestId inp)), (''status'', MNum st),
                     (''durationMs'', MNum durationMs)]) w;
          w2 = (if audit_enabled inp
                then log_to True (Audit (failureAudit inp user durationMs error (now w1))) w1
                else w1)
      in onError inp error (pipelineMeta inp user durationMs) w2)"

text \<open>
  \<open>runPipeline\<close>: the converters \<open>onRateLimited\<close> and \<open>onSuccess\<close> are awaited inside
  the \<open>try\<close> block, so an error they throw is caught as well; what \<open>onError\<close> throws
  leaves the pipeline.
\<close>

definition runPipeline ::
  "('v, 'c, 'r, 's, 'b) pipeline_input \<Rightarrow> ('s, 'b) world \<Rightarrow>
   (thrown + 'r) \<times> ('s, 'b) world" where
  "runPipeline inp w =
     (let startTime = now w in
      case runPipeline_steps inp w of
        (Threw error user, w1) \<Rightarrow> runPipeline_catch inp startTime user error w1
      | (RateLimited rl user, w1) \<Rightarrow>
          (case onRateLimited inp rl w1 of
             (Inr r, w2) \<Rightarrow> (Inr r, w2)
           | (Inl error, w2) \<Rightarrow> runPipeline_catch inp startTime user error w2)
      | (Executed result user, w1) \<Rightarrow>
          (case runPipeline_complete inp startTime user result w1 of
             (Inr r, w2) \<Rightarrow> (Inr r, w2)
           | (Inl error, w2) \<Rightarrow> runPipeline_catch inp startTime user error w2))"

section \<open>HTTP responses and transformers (response.ts)\<close>

text \<open>
  A \<open>Response\<close> with its body kept as the value handed to \<open>JSON.stringify\<close> (or as the
  stored text for a cached one) and its headers as the object they were built from.
\<close>

record 'b response =
  body :: 'b
  resp_status :: int
  headers :: "string \<rightharpoonup> string"

datatype 'd envelope =
  SuccessEnvelope 'd
  | ErrorEnvelope string string "validation_error_detail list option"

record ('d, 'b) response_transformers =
  t_success :: "('d \<Rightarrow> int \<Rightarrow> 'b) option"
  t_error :: "(string \<Rightarrow> string \<Rightarrow> int \<Rightarrow> validation_error_detail list option \<Rightarrow> 'b) option"

record ('d, 'b) required_transformers =
  r_success :: "'d \<Rightarrow> int \<Rightarrow> 'b"
  r_error :: "string \<Rightarrow> string \<Rightarrow> int \<Rightarrow> validation_error_detail list option \<Rightarrow> 'b"

definition defaultTransformers :: "('d, 'd envelope) required_transformers" where
  "defaultTransformers =
     \<lparr>r_success = (\<lambda>d _. SuccessEnvelope d),
      r_error = (\<lambda>m c _ es.
         ErrorEnvelope m c
           (case es of None \<Rightarrow> None | Some l \<Rightarrow> if 0 < length l then Some l else None))\<rparr>"

text \<open>
  The process-wide \<open>globalTransformers\<close> variable is read by the functions below; its
  current value is their argument \<open>global\<close>.
\<close>

definition getEffectiveTransformers ::
  "('d, 'b) response_transformers option \<Rightarrow> ('d, 'b) required_transformers \<Rightarrow>
   ('d, 'b) response_transformers" where
  "getEffectiveTransformers instanceTransformers global =
     \<lparr>t_success = Some (case (case instanceTransformers of None \<Rightarrow> None
                                 | Some t \<Rightarrow> t_success t) of
                          Some f \<Rightarrow> f | None \<Rightarrow> r_success global),
      t_error = Some (case (case instanceTransformers of None \<Rightarrow> None
                               | Some t \<Rightarrow> t_error t) of
                        Some f \<Rightarrow> f | None \<Rightarrow> r_error global)\<rparr>"

definition ApiResponse_success ::
  "'d \<Rightarrow> int \<Rightarrow> ('d, 'b) response_transformers option \<Rightarrow> ('d, 'b) required_transformers \<Rightarrow>
   'b response" where
  "ApiResponse_success d st transformers global =
     (let transform = (case (case transformers of None \<Rightarrow> None | Some t \<Rightarrow> t_success t) of
                         Some f \<Rightarrow> f | None \<Rightarrow> r_success global)
      in \<lparr>body = transform d st, resp_status = st,
          headers = [''Content-Type'' \<mapsto> ''application/json'']\<rparr>)"

definition createErrorResponse ::
  "api_error \<Rightarrow> ('d, 'b) response_transformers option \<Rightarrow> ('d, 'b) required_transformers \<Rightarrow>
   'b response" where
  "createErrorResponse error transformers global =
     (let transform = (case (case transformers of None \<Rightarrow> None | Some t \<Rightarrow> t_error t) of
                         Some f \<Rightarrow> f | None \<Rightarrow> r_error global)
      in \<lparr>body = transform (message error) (code error) (status error) (errors error),
          resp_status = status error,
          headers = [''Content-Type'' \<mapsto> ''application/json'']\<rparr>)"

definition set_header :: "string \<Rightarrow> string \<Rightarrow> 'b response \<Rightarrow> 'b response" where
  "set_header k v r = r\<lparr>headers := (headers r)(k \<mapsto> v)\<rparr>"

section \<open>The error handler (wrapper/error-handler.ts)\<close>

definition truthy_str :: "string option \<Rightarrow> bool" where
  "truthy_str x = (case x of None \<Rightarrow> False | Some s \<Rightarrow> s \<noteq> [])"





section \<open>Response cache (middleware/cache.ts)\<close>

text \<open>
  The request as the wrapper sees it. The transport-level parsers are outside the core;
  the record carries what they return: \<open>req_cookies\<close> for \<open>parseCookies\<close>,
  \<open>req_query\<close> for \<open>parseQuery\<close>, \<open>req_body\<close> for \<open>parseBody\<close>, which may throw.
\<close>

record 'v request =
  req_method :: string
  req_pathname :: string
  req_search :: string
  req_headers :: "string \<rightharpoonup> string"
  req_cookies :: "string \<rightharpoonup> string"
  req_query :: "'v option"
  req_body :: "thrown + 'v option"

record 'v cache_config =
  ttlMs :: int
  keyGenerator :: "('v request \<Rightarrow> string) option"
  successOnly :: "bool option"

definition generateCacheKey :: "'v request \<Rightarrow> string" where
  "generateCacheKey req = ''cache:'' @ req_method req @ '':'' @ req_pathname req @ req_search req"

definition getCacheKey :: "'v request \<Rightarrow> 'v cache_config \<Rightarrow> string" where
  "getCacheKey req config =
     (case keyGenerator config of Some g \<Rightarrow> g req | None \<Rightarrow> generateCacheKey req)"

text \<open>The cache adapter's \<open>get\<close> and \<open>set\<close> read and write the \<open>store\<close> of the world.\<close>

definition getCachedResponse ::
  "string \<Rightarrow> string \<Rightarrow> bool \<Rightarrow> ('s, 'b) world \<Rightarrow> 'b response option \<times> ('s, 'b) world" where
  "getCachedResponse cacheKey rid logger w =
     (case store w cacheKey of
        Some cached \<Rightarrow>
          (Some \<lparr>body = cached_body cached, resp_status = cached_status cached,
                 headers = (cached_headers cached)
                             (''X-Request-ID'' \<mapsto> rid, ''X-Cache'' \<mapsto> ''HIT'')\<rparr>,
           log_to logger
             (Debug ''Cache hit'' [(''requestId'', MStr rid), (''cacheKey'', MStr cacheKey)]) w)
      | None \<Rightarrow> (None, w))"

definition setCachedResponse ::
  "string \<Rightarrow> 'b response \<Rightarrow> int \<Rightarrow> string \<Rightarrow> bool \<Rightarrow> ('s, 'b) world \<Rightarrow> ('s, 'b) world" where
  "setCachedResponse cacheKey resp ttl rid logger w =
     log_to logger
       (Debug ''Cache set''
          [(''requestId'', MStr rid), (''cacheKey'', MStr cacheKey), (''ttlMs'', MNum ttl)])
       (w\<lparr>store := (store w)(cacheKey \<mapsto>
             \<lparr>cached_body = body resp, cached_status = resp_status resp,
              cached_headers = headers resp\<rparr>)\<rparr>)"

definition shouldCacheResponse :: "'b response \<Rightarrow> bool \<Rightarrow> bool" where
  "shouldCacheResponse resp so =
     (if so then 200 \<le> resp_status resp \<and> resp_status resp < 300 else True)"

section \<open>The HTTP wrapper (wrapper/api/handlers.ts, wrapper/api/index.ts)\<close>

definition checkCache ::
  "'v request \<Rightarrow> 'v cache_config option \<Rightarrow> bool \<Rightarrow> string \<Rightarrow> bool \<Rightarrow> ('s, 'b) world \<Rightarrow>
   'b response option \<times> ('s, 'b) world" where
  "checkCache req cache cacheAdapter rid logger w =
     (case cache of
        None \<Rightarrow> (None, w)
      | Some cfg \<Rightarrow>
          if \<not> cacheAdapter \<or> req_method req \<noteq> ''GET'' then (None, w)
          else getCachedResponse (getCacheKey req cfg) rid logger w)"

definition saveToCache ::
  "'v request \<Rightarrow> 'b response \<Rightarrow> 'v cache_config option \<Rightarrow> bool \<Rightarrow> string \<Rightarrow> bool \<Rightarrow>
   ('s, 'b) world \<Rightarrow> 'b response \<times> ('s, 'b) world" where
  "saveToCache req resp cache cacheAdapter rid logger w =
     (case cache of
        None \<Rightarrow> (resp, w)
      | Some cfg \<Rightarrow>
          if \<not> cacheAdapter \<or> req_method req \<noteq> ''GET'' then (resp, w)
          else if shouldCacheResponse resp (successOnly cfg \<noteq> Some False)
          then (set_header ''X-Cache'' ''MISS'' resp,
                setCachedResponse (getCacheKey req cfg) resp (ttlMs cfg) rid logger w)
          else (resp, w))"

text \<open>\<open>Math.ceil(x / 1000)\<close> on an integer number of milliseconds.\<close>

definition ceil_seconds :: "int \<Rightarrow> int" where
  "ceil_seconds x = - ((- x) div 1000)"

definition api_onRateLimited ::
  "('d, 'b) response_transformers \<Rightarrow> ('d, 'b) required_transformers \<Rightarrow>
   pipeline_rate_limit_result \<Rightarrow> string \<Rightarrow> ('s, 'b) world \<Rightarrow> 'b response" where
  "api_onRateLimited transformers global result rid w =
     (let retryAfter = ceil_seconds (rl_resetAt result - now w) in
      set_header ''Retry-After'' (string_of_int retryAfter)
        (set_header ''X-RateLimit-Reset'' (string_of_int (rl_resetAt result))
           (set_header ''X-RateLimit-Remaining'' ''0''
              (set_header ''X-RateLimit-Limit'' (string_of_int (limit result))
                 (set_header ''X-Request-ID'' rid
                    (createErrorResponse tooManyRequests (Some transformers) global))))))"

definition api_onSuccess :: "'b response \<Rightarrow> string \<Rightarrow> 'b response" where
  "api_onSuccess resp rid = set_header ''X-Request-ID'' rid resp"

definition api_onError ::
  "('d, 'b) response_transformers \<Rightarrow> ('d, 'b) required_transformers \<Rightarrow> bool \<Rightarrow>
   thrown \<Rightarrow> string \<Rightarrow> ('s, 'b) world \<Rightarrow> 'b response \<times> ('s, 'b) world" where
  "api_onError transformers global logger error rid w =
     (case error of
        ApiErr e \<Rightarrow>
          (set_header ''X-Request-ID'' rid (createErrorResponse e (Some transformers) global), w)
      | _ \<Rightarrow>
          (set_header ''X-Request-ID'' rid
             (createErrorResponse internalError (Some transformers) global),
           log_to logger
             (ErrorLog ''Unhandled API error''
                (case error of PlainError n m \<Rightarrow> Some error | _ \<Rightarrow> None)
                [(''requestId'', MStr rid)]) w))"

subsection \<open>Request parsers used for the context (wrapper/api/parsers.ts)\<close>

definition is_ws :: "char \<Rightarrow> bool" where
  "is_ws c = (c \<in> set [CHR 0x20, CHR 0x09, CHR 0x0A, CHR 0x0B, CHR 0x0C, CHR 0x0D])"

definition trim :: "string \<Rightarrow> string" where
  "trim s = rev (dropWhile is_ws (rev (dropWhile is_ws s)))"

definition or_str :: "string option \<Rightarrow> string \<Rightarrow> string" where
  "or_str a b = (case a of Some s \<Rightarrow> if s \<noteq> [] then s else b | None \<Rightarrow> b)"

definition getClientIp :: "'v request \<Rightarrow> string" where
  "getClientIp req =
     (if truthy_str (req_headers req ''x-forwarded-for'')
      then trim (takeWhile (\<lambda>c. c \<noteq> CHR '','') (or_str (req_headers req ''x-forwarded-for'') []))
      else or_str (req_headers req ''x-real-ip'') ''unknown'')"

definition getUserAgent :: "'v request \<Rightarrow> string" where
  "getUserAgent req = or_str (req_headers req ''user-agent'') ''unknown''"

definition buildAuthContext :: "'v request \<Rightarrow> auth_request_context" where
  "buildAuthContext req = \<lparr>ctx_headers = req_headers req, ctx_cookies = req_cookies req\<rparr>"

subsection \<open>createApiWrapper\<close>

record 'v api_context =
  ctx_req :: "'v request"
  ctx_requestId :: string
  parsedParams :: "'v option"
  parsedQuery :: "'v option"
  parsedBody :: "'v option"
  ctx_user :: base_user
  ip :: string
  userAgent :: string
  ctx_method :: string
  ctx_path :: string

text \<open>A route handler returns a \<open>Response\<close> or any other value, which is then wrapped.\<close>

datatype ('d, 'b) handler_result = ResponseResult "'b response" | DataResult 'd

record ('d, 'b) wrapper_config =
  cfg_adapters :: pipeline_adapters
  cfg_defaults :: pipeline_defaults
  cfg_transformers :: "('d, 'b) response_transformers option"

record 'v wrapper_options =
  wo_pipeline :: "'v pipeline_options"
  wo_cache :: "'v cache_config option"

text \<open>
  \<open>runHandler\<close> of the wrapper. The optional middleware chain is user code wrapped around
  the handler; the handler argument stands for the chain with the handler at its end.
\<close>

definition api_runHandler ::
  "('v api_context, ('d, 'b) handler_result, 's) handler \<Rightarrow>
   ('d, 'b) response_transformers \<Rightarrow> ('d, 'b) required_transformers \<Rightarrow>
   ('v api_context, 'b response, 's) handler" where
  "api_runHandler h transformers global ctx s =
     (case h ctx s of
        (Inl e, d, s') \<Rightarrow> (Inl e, d, s')
      | (Inr (ResponseResult r), d, s') \<Rightarrow> (Inr r, d, s')
      | (Inr (DataResult x), d, s') \<Rightarrow>
          (Inr (ApiResponse_success x 200 (Some transformers) global), d, s'))"

text \<open>
  The route handler returned by \<open>apiWrapper(handler, options)\<close>, applied to a request,
  its route parameters and the identifier \<open>generateRequestId()\<close> would produce. It looks
  the response cache up and otherwise runs the pipeline on the record built here.
\<close>

definition api_pipeline_input ::
  "('d, 'b) wrapper_config \<Rightarrow> ('d, 'b) required_transformers \<Rightarrow>
   ('v api_context, ('d, 'b) handler_result, 's) handler \<Rightarrow> 'v wrapper_options \<Rightarrow>
   'v request \<Rightarrow> 'v option \<Rightarrow> string \<Rightarrow>
   ('v, 'v api_context, 'b response, 's, 'b) pipeline_input" where
  "api_pipeline_input config global h opts req routeParams rid =
     (let effectiveTransformers = getEffectiveTransformers (cfg_transformers config) global;
          logger = adapter_logger (cfg_adapters config);
          cacheAdapter = adapter_cache (cfg_adapters config)
      in \<lparr>requestId = rid,
          http_method = req_method req,
          path_name = req_pathname req,
          getAuthContext = Inr (buildAuthContext req),
          getIdentifier = (\<lambda>user.
             if user_id user \<noteq> [] then user_id user
             else ''ip:'' @ or_str (req_headers req ''x-forwarded-for'') ''unknown''),
          getRawInput =
            (if req_method req \<noteq> ''GET'' \<and> req_method req \<noteq> ''HEAD''
             then (case req_body req of
                     Inl e \<Rightarrow> Inl e
                   | Inr b \<Rightarrow> Inr \<lparr>in_params = routeParams, in_query = req_query req,
                                    in_body = b\<rparr>)
             else Inr \<lparr>in_params = routeParams, in_query = req_query req, in_body = None\<rparr>),
          buildContext = (\<lambda>user validatedInput.
             \<lparr>ctx_req = req, ctx_requestId = rid,
              parsedParams = in_params validatedInput,
              parsedQuery = in_query validatedInput,
              parsedBody = in_body validatedInput,
              ctx_user = user, ip = getClientIp req, userAgent = getUserAgent req,
              ctx_method = req_method req, ctx_path = req_pathname req\<rparr>),
          executeHandler = api_runHandler h effectiveTransformers global,
          onRateLimited = (\<lambda>result w.
             (Inr (api_onRateLimited effectiveTransformers global result rid w), w)),
          onSuccess = (\<lambda>resp m w.
             case saveToCache req (api_onSuccess resp rid) (wo_cache opts) cacheAdapter
                    rid logger w of
               (final, w') \<Rightarrow> (Inr final, w')),
          onError = (\<lambda>error m w.
             case api_onError effectiveTransformers global logger error rid w of
               (resp, w') \<Rightarrow> (Inr resp, w')),
          options = wo_pipeline opts,
          adapters = cfg_adapters config,
          defaults = cfg_defaults config\<rparr>)"

definition apiWrapper ::
  "('d, 'b) wrapper_config \<Rightarrow> ('d, 'b) required_transformers \<Rightarrow>
   ('v api_context, ('d, 'b) handler_result, 's) handler \<Rightarrow> 'v wrapper_options \<Rightarrow>
   'v request \<Rightarrow> 'v option \<Rightarrow> string \<Rightarrow> ('s, 'b) world \<Rightarrow>
   (thrown + 'b response) \<times> ('s, 'b) world" where
  "apiWrapper config global h opts req routeParams generated w =
     (let rid = or_str (req_headers req ''x-request-id'') generated in
      case checkCache req (wo_cache opts) (adapter_cache (cfg_adapters config)) rid
             (adapter_logger (cfg_adapters config)) w of
        (Some cached, w1) \<Rightarrow> (Inr cached, w1)
      | (None, w1) \<Rightarrow>
          runPipeline (api_pipeline_input config global h opts req routeParams rid) w1)"

section \<open>The action result handlers (wrapper/action/handlers.ts)\<close>

definition action_onRateLimited :: "('s, 'b) world \<Rightarrow> (thrown + 'r) \<times> ('s, 'b) world" where
  "action_onRateLimited w = (Inl (ApiErr tooManyRequests), w)"

definition action_onError ::
  "bool \<Rightarrow> thrown \<Rightarrow> string \<Rightarrow> ('s, 'b) world \<Rightarrow> (thrown + 'r) \<times> ('s, 'b) world" where
  "action_onError logger error rid w =
     (case error of
        ApiErr e \<Rightarrow> (Inl error, w)
      | _ \<Rightarrow>
          (Inl (ApiErr internalError),
           log_to logger
             (ErrorLog ''Unhandled action error''
                (case error of PlainError n m \<Rightarrow> Some error | _ \<Rightarrow> None)
                [(''requestId'', MStr rid)]) w))"

section \<open>Notions used in the statements\<close>

text \<open>
  The reading of step 7 in the specification, written out to be compared with
  \<open>executeWithRetryAndTimeout\<close>: "timeout wraps each individual retryable invocation",
  that is, the guard is put on every invocation of the handler, inside the retry.
\<close>

definition executePerAttemptTimeout ::
  "('v, 'c, 'r, 's, 'b) pipeline_input \<Rightarrow> 'c \<Rightarrow> ('s, 'b) world \<Rightarrow>
   (thrown + 'r) \<times> ('s, 'b) world" where
  "executePerAttemptTimeout inp ctx w =
     (let effectiveTimeout = or_num (timeout (options inp)) (default_timeout (defaults inp));
          guarded =
            (case effectiveTimeout of
               Some t \<Rightarrow> if t \<noteq> 0 then withTimeout (runHandler (executeHandler inp) ctx) t
                         else runHandler (executeHandler inp) ctx
             | None \<Rightarrow> runHandler (executeHandler inp) ctx)
      in case retry (options inp) of
           Some r \<Rightarrow> withRetry guarded r (adapter_logger (adapters inp)) (requestId inp) w
         | None \<Rightarrow> guarded w)"

text \<open>
  The issues reported for one slot (\<open>None\<close> when the slot has no schema or its data
  passes), and the first slot that fails in the order the pipeline validates them.
\<close>

definition slot_issues :: "'v schema option \<Rightarrow> 'v option \<Rightarrow> zod_issue list option" where
  "slot_issues sc data =
     (case sc of
        None \<Rightarrow> None
      | Some f \<Rightarrow> (case f data of Inl issues \<Rightarrow> Some issues | Inr _ \<Rightarrow> None))"

definition first_failing_slot ::
  "'v validation_config \<Rightarrow> 'v input_slots \<Rightarrow> (string \<times> zod_issue list) option" where
  "first_failing_slot v raw =
     (case slot_issues (v_params v) (in_params raw) of
        Some issues \<Rightarrow> Some (''params'', issues)
      | None \<Rightarrow>
          (case slot_issues (v_query v) (in_query raw) of
             Some issues \<Rightarrow> Some (''query'', issues)
           | None \<Rightarrow>
               (case slot_issues (v_body v) (in_body raw) of
                  Some issues \<Rightarrow> Some (''body'', issues)
                | None \<Rightarrow> None)))"

text \<open>The audit records among the calls a logger received, in order.\<close>

fun audit_records :: "log_call list \<Rightarrow> audit_event list" where
  "audit_records [] = []"
| "audit_records (Audit a # xs) = a # audit_records xs"
| "audit_records (_ # xs) = audit_records xs"

section \<open>Concrete inputs\<close>

text \<open>Small handlers, configurations and worlds on which the theorems below are run.\<close>

definition example_world :: "(nat, unit) world" where
  "example_world =
     \<lparr>app = 0, now = 1000, handler_calls = 0, verify_calls = 0, logs = [], sleeps = [],
      counters = (\<lambda>_. 0), store = Map.empty\<rparr>"


definition three_attempts :: retry_config where
  "three_attempts = \<lparr>attempts = 3, delayMs = Some 10, retryOn = None, shouldRetry = None\<rparr>"

definition no_options :: "nat pipeline_options" where
  "no_options =
     \<lparr>auth = None, tenantScoped = False, rateLimit = RateLimitUnset, timeout = None,
      retry = None, audit = None, validation = None\<rparr>"

definition no_adapters :: pipeline_adapters where
  "no_adapters = \<lparr>adapter_auth = None, adapter_cache = False, adapter_logger = False\<rparr>"

definition plain_input ::
  "(nat, nat, nat) handler \<Rightarrow> nat pipeline_options \<Rightarrow> pipeline_adapters \<Rightarrow>
   (nat, nat, nat, nat, unit) pipeline_input" where
  "plain_input h opts ads =
     \<lparr>requestId = ''r1'', http_method = ''GET'', path_name = ''/api/test'',
      getAuthContext = Inr \<lparr>ctx_headers = Map.empty, ctx_cookies = Map.empty\<rparr>,
      getIdentifier = (\<lambda>u. if user_id u \<noteq> [] then user_id u else ''anonymous''),
      getRawInput = Inr \<lparr>in_params = None, in_query = None, in_body = Some 7\<rparr>,
      buildContext = (\<lambda>u v. case in_body v of Some b \<Rightarrow> b | None \<Rightarrow> 0),
      executeHandler = h,
      onRateLimited = (\<lambda>rl w. (Inl (ApiErr tooManyRequests), w)),
      onSuccess = (\<lambda>r m w. (Inr r, w)),
      onError = (\<lambda>e m w. (Inl e, w)),
      options = opts, adapters = ads,
      defaults = \<lparr>default_timeout = None, default_rateLimit = Map.empty\<rparr>\<rparr>"

definition slow_flaky :: "(nat, nat, nat) handler" where
  "slow_flaky c s =
     (if s < 2 then Inl (ApiErr (ApiError ''Service unavailable'' 503 ''BAD_REQUEST''))
      else Inr c, 60, Suc s)"

definition slow_input :: "(nat, nat, nat, nat, unit) pipeline_input" where
  "slow_input =
     plain_input slow_flaky (no_options\<lparr>timeout := Some 100, retry := Some three_attempts\<rparr>)
       no_adapters"

definition id_schema :: "nat schema" where
  "id_schema v =
     (case v of
        None \<Rightarrow> Inl [\<lparr>path = [KeyStr ''id''], issue_message = ''Required''\<rparr>]
      | Some x \<Rightarrow> Inr (Some x))"

definition user_schema :: "nat schema" where
  "user_schema v =
     (if v = Some 7
      then Inl [\<lparr>path = [KeyStr ''email''], issue_message = ''Invalid email''\<rparr>,
                \<lparr>path = [KeyStr ''address'', KeyStr ''zip''], issue_message = ''Required''\<rparr>]
      else Inr v)"

definition both_schemas :: "nat validation_config" where
  "both_schemas = \<lparr>v_params = Some id_schema, v_query = None, v_body = Some user_schema\<rparr>"

definition body_schema_only :: "nat validation_config" where
  "body_schema_only = \<lparr>v_params = None, v_query = None, v_body = Some user_schema\<rparr>"

definition ok_handler :: "(nat, nat, nat) handler" where
  "ok_handler c s = (Inr c, 5, Suc s)"

definition validating_input :: "nat validation_config \<Rightarrow> (nat, nat, nat, nat, unit) pipeline_input" where
  "validating_input v = plain_input ok_handler (no_options\<lparr>validation := Some v\<rparr>) no_adapters"

definition api_config :: "(nat, nat envelope) wrapper_config" where
  "api_config =
     \<lparr>cfg_adapters = \<lparr>adapter_auth = None, adapter_cache = True, adapter_logger = True\<rparr>,
      cfg_defaults = \<lparr>default_timeout = None, default_rateLimit = Map.empty\<rparr>,
      cfg_transformers = None\<rparr>"

definition get_request :: "nat request" where
  "get_request =
     \<lparr>req_method = ''GET'', req_pathname = ''/api/test'', req_search = [],
      req_headers = Map.empty, req_cookies = Map.empty, req_query = None,
      req_body = Inr None\<rparr>"

definition api_handler :: "(nat api_context, (nat, nat envelope) handler_result, nat) handler" where
  "api_handler ctx s = (Inr (DataResult 1), 5, Suc s)"

definition one_per_minute :: "nat wrapper_options" where
  "one_per_minute =
     \<lparr>wo_pipeline = no_options\<lparr>rateLimit := RateLimit \<lparr>rl_max = 1, windowMs = 60000\<rparr>\<rparr>,
      wo_cache = None\<rparr>"

text \<open>A world in which every rate-limit counter already stands at 1.\<close>

definition busy_world :: "(nat, nat envelope) world" where
  "busy_world =
     \<lparr>app = 0, now = 1000, handler_calls = 0, verify_calls = 0, logs = [], sleeps = [],
      counters = (\<lambda>_. 1), store = Map.empty\<rparr>"

definition logged_adapters :: pipeline_adapters where
  "logged_adapters = \<lparr>adapter_auth = None, adapter_cache = False, adapter_logger = True\<rparr>"

definition logged_input :: "(nat, nat, nat, nat, unit) pipeline_input" where
  "logged_input = plain_input ok_handler no_options logged_adapters"

definition failing_handler :: "(nat, nat, nat) handler" where
  "failing_handler c s = (Inl (ApiErr (ApiError ''Resource not found'' 404 ''NOT_FOUND'')), 5, Suc s)"

definition logged_failing_input :: "(nat, nat, nat, nat, unit) pipeline_input" where
  "logged_failing_input = plain_input failing_handler no_options logged_adapters"

definition limited_api_input ::
  "(nat, nat api_context, nat envelope response, nat, nat envelope) pipeline_input" where
  "limited_api_input =
     api_pipeline_input api_config defaultTransformers api_handler one_per_minute get_request
       None ''r1''"

definition bare_config :: "(nat, nat envelope) wrapper_config" where
  "bare_config =
     \<lparr>cfg_adapters = no_adapters,
      cfg_defaults = \<lparr>default_timeout = None, default_rateLimit = Map.empty\<rparr>,
      cfg_transformers = None\<rparr>"

definition auth_required :: "nat wrapper_options" where
  "auth_required = \<lparr>wo_pipeline = no_options\<lparr>auth := Some []\<rparr>, wo_cache = None\<rparr>"

definition tenant_scoped :: "nat wrapper_options" where
  "tenant_scoped = \<lparr>wo_pipeline = no_options\<lparr>tenantScoped := True\<rparr>, wo_cache = None\<rparr>"

definition idle_world :: "(nat, nat envelope) world" where
  "idle_world =
     \<lparr>app = 0, now = 1000, handler_calls = 0, verify_calls = 0, logs = [], sleeps = [],
      counters = (\<lambda>_. 0), store = Map.empty\<rparr>"

definition unwired_api_input ::
  "nat wrapper_options \<Rightarrow>
   (nat, nat api_context, nat envelope response, nat, nat envelope) pipeline_input" where
  "unwired_api_input opts =
     api_pipeline_input bare_config defaultTransformers api_handler opts get_request None ''r1''"





definition user_role :: "base_user \<Rightarrow> string" where
  "user_role u = (case map_of (user_attrs u) ''role'' of Some r \<Rightarrow> r | None \<Rightarrow> [])"

definition bearer_adapter :: auth_adapter where
  "bearer_adapter =
     \<lparr>verify = (\<lambda>c. case ctx_headers c ''authorization'' of
                       None \<Rightarrow> None
                     | Some t \<Rightarrow> Some \<lparr>user_id = ''user-1'', user_attrs = [(''role'', t)]\<rparr>),
      hasRole = (\<lambda>u roles. roles = [] \<or> user_role u \<in> set roles),
      isTenantValid = None\<rparr>"

definition bearer :: "string option \<Rightarrow> thrown + auth_request_context" where
  "bearer t =
     Inr \<lparr>ctx_headers = (case t of None \<Rightarrow> Map.empty | Some x \<Rightarrow> [''authorization'' \<mapsto> x]),
          ctx_cookies = Map.empty\<rparr>"

definition guarded_input ::
  "string list \<Rightarrow> string option \<Rightarrow> (nat, nat, nat, nat, unit) pipeline_input" where
  "guarded_input roles t =
     (plain_input ok_handler (no_options\<lparr>auth := Some roles\<rparr>)
        \<lparr>adapter_auth = Some bearer_adapter, adapter_cache = False, adapter_logger = False\<rparr>)
     \<lparr>getAuthContext := bearer t\<rparr>"

definition no_token :: auth_request_context where
  "no_token = \<lparr>ctx_headers = Map.empty, ctx_cookies = Map.empty\<rparr>"

definition token :: "string \<Rightarrow> auth_request_context" where
  "token x = \<lparr>ctx_headers = [''authorization'' \<mapsto> x], ctx_cookies = Map.empty\<rparr>"

definition principal :: "string \<Rightarrow> base_user" where
  "principal x = \<lparr>user_id = ''user-1'', user_attrs = [(''role'', x)]\<rparr>"

text \<open>The definitions unfolded when the model is run on these inputs.\<close>

lemmas ex_defs = slow_input_def plain_input_def no_options_def no_adapters_def three_attempts_def
  slow_flaky_def example_world_def

lemmas api_defs = limited_api_input_def api_pipeline_input_def api_config_def get_request_def
  api_handler_def one_per_minute_def busy_world_def no_options_def

lemmas pipeline_defs = runPipeline_def runPipeline_steps_def runPipeline_admitted_def
  runPipeline_complete_def runPipeline_catch_def authenticate_def tenantScoping_def
  rateLimiting_def rateLimitConfig_def checkRateLimit_def cache_increment_def
  buildRateLimitKey_def validateInput_def validateSlot_def executeWithRetryAndTimeout_def
  or_num_def truthy_num_def runHandler_def audit_enabled_def pipelineMeta_def
  successAudit_def failureAudit_def log_to_def

lemmas unwired_defs = unwired_api_input_def api_pipeline_input_def bare_config_def
  no_adapters_def get_request_def api_handler_def auth_required_def tenant_scoped_def
  idle_world_def no_options_def

lemmas response_defs = api_onError_def api_onRateLimited_def api_onSuccess_def
  createErrorResponse_def set_header_def internalError_def tooManyRequests_def ApiError_def
  getEffectiveTransformers_def defaultTransformers_def

lemmas guarded_defs = guarded_input_def plain_input_def no_options_def bearer_def
  bearer_adapter_def no_token_def token_def principal_def user_role_def

section \<open>Properties of the retry wrapper\<close>


text \<open>
  C10. With \<open>attempts \<le> 0\<close> the loop body never runs: the wrapped operation is not
  invoked, nothing is logged or slept, and the wrapper rejects with the never-assigned
  \<open>lastError\<close>, that is with \<open>undefined\<close>, which is not an Error object.
\<close>

theorem withRetry_no_attempts:
  "attempts config \<le> 0 \<Longrightarrow>
   withRetry fn config logger rid w = (Inl Undefined, w)"
  by (simp add: withRetry_def withRetry_loop.simps)

theorem withRetry_no_attempts_witness:
  "attempts \<lparr>attempts = 0, delayMs = None, retryOn = None, shouldRetry = None\<rparr> \<le> 0 \<and>
   withRetry (runHandler (\<lambda>c s. (Inr (c + s), 5, s + 1)) (7::nat))
       \<lparr>attempts = 0, delayMs = None, retryOn = None, shouldRetry = None\<rparr> True ''r''
       \<lparr>app = (0::nat), now = 0, handler_calls = 0, verify_calls = 0, logs = [], sleeps = [],
        counters = (\<lambda>_. 0), store = (Map.empty :: string \<rightharpoonup> unit cached_response)\<rparr>
     = (Inl Undefined,
        \<lparr>app = (0::nat), now = 0, handler_calls = 0, verify_calls = 0, logs = [], sleeps = [],
         counters = (\<lambda>_. 0), store = Map.empty\<rparr>)"
  using withRetry_no_attempts
    [of "\<lparr>attempts = 0, delayMs = None, retryOn = None, shouldRetry = None\<rparr>"
        "runHandler (\<lambda>c s. (Inr (c + s), 5, s + 1)) (7::nat)" True "''r''"]
  by simp



section \<open>Retry and timeout in the pipeline\<close>

text \<open>
  C1, as stated, does not hold. A handler that fails twice with 503 and then succeeds,
  60 ms per invocation, under \<open>retry = {attempts: 3, delayMs: 10}\<close> and
  \<open>timeout = 100\<close>: no invocation exceeds the timeout, and with a budget per attempt the
  step would succeed after 210 ms. The pipeline gives up after 100 ms with the Timeout
  failure, because \<open>withTimeout\<close> is applied once to the promise of the whole retry
  sequence.
\<close>

theorem timeout_not_per_attempt:
  "fst (executeWithRetryAndTimeout slow_input 7 example_world) = Inl (ApiErr timeoutError) \<and>
   now (snd (executeWithRetryAndTimeout slow_input 7 example_world)) - now example_world = 100 \<and>
   fst (executePerAttemptTimeout slow_input 7 example_world) = Inr 7 \<and>
   now (snd (executePerAttemptTimeout slow_input 7 example_world)) - now example_world = 210"
  by (simp add: executeWithRetryAndTimeout_def executePerAttemptTimeout_def ex_defs
        or_num_def truthy_num_def withRetry_def withRetry_loop.simps withTimeout_def
        runHandler_def shouldRetryThis_def DEFAULT_RETRY_STATUS_CODES_def ApiError_def
        sleep_def log_to_def retry_delay_def)

text \<open>
  C1, amended. When a retry policy and a timeout \<open>t > 0\<close> are both in force, the
  timeout guard is applied once, around the whole retry sequence: all attempts and the
  backoff sleeps between them share the one budget. The step is waited for at most
  \<open>t\<close>, and when the retry sequence takes longer than \<open>t\<close> in total the outcome is the
  Timeout failure (status 408, code \<open>TIMEOUT\<close>), however short each attempt was.
\<close>

theorem timeout_guards_whole_retry:
  assumes "retry (options inp) = Some r"
    and "or_num (timeout (options inp)) (default_timeout (defaults inp)) = Some t"
    and "0 < t"
  shows "executeWithRetryAndTimeout inp ctx w =
           withTimeout (withRetry (runHandler (executeHandler inp) ctx) r
                          (adapter_logger (adapters inp)) (requestId inp)) t w \<and>
         now (snd (executeWithRetryAndTimeout inp ctx w)) - now w \<le> t \<and>
         (t < now (snd (withRetry (runHandler (executeHandler inp) ctx) r
                          (adapter_logger (adapters inp)) (requestId inp) w)) - now w \<longrightarrow>
            fst (executeWithRetryAndTimeout inp ctx w) = Inl (ApiErr timeoutError)) \<and>
         status timeoutError = 408 \<and> code timeoutError = ''TIMEOUT''"
  using assms
  by (auto simp: executeWithRetryAndTimeout_def withTimeout_def timeoutError_def ApiError_def
           split: prod.splits)

theorem timeout_guards_whole_retry_witness:
  "retry (options slow_input) = Some three_attempts \<and>
   or_num (timeout (options slow_input)) (default_timeout (defaults slow_input)) = Some 100 \<and>
   (0::int) < 100 \<and>
   now (snd (executeWithRetryAndTimeout slow_input 7 example_world)) - now example_world \<le> 100 \<and>
   fst (executeWithRetryAndTimeout slow_input 7 example_world) = Inl (ApiErr timeoutError)"
proof -
  have h1: "retry (options slow_input) = Some three_attempts"
    by (simp add: slow_input_def plain_input_def no_options_def)
  have h2: "or_num (timeout (options slow_input)) (default_timeout (defaults slow_input)) = Some 100"
    by (simp add: slow_input_def plain_input_def no_options_def or_num_def truthy_num_def)
  have h3: "(0::int) < 100" by simp
  have long: "100 < now (snd (withRetry (runHandler (executeHandler slow_input) 7) three_attempts
                  (adapter_logger (adapters slow_input)) (requestId slow_input) example_world))
                - now example_world"
    by (simp add: ex_defs withRetry_def withRetry_loop.simps runHandler_def shouldRetryThis_def
          DEFAULT_RETRY_STATUS_CODES_def ApiError_def sleep_def log_to_def retry_delay_def)
  note T = timeout_guards_whole_retry [OF h1 h2 h3, of 7 example_world]
  from T have a: "now (snd (executeWithRetryAndTimeout slow_input 7 example_world))
                    - now example_world \<le> 100"
    by blast
  from T long have b: "fst (executeWithRetryAndTimeout slow_input 7 example_world)
                         = Inl (ApiErr timeoutError)"
    by blast
  from h1 h2 h3 a b show ?thesis by blast
qed

section \<open>Input validation\<close>

text \<open>
  C2, as stated, does not hold. With schemas on params and body, missing params and a body
  whose \<open>email\<close> and \<open>address.zip\<close> fail: the slots fail one by one (the body alone yields
  the fields \<open>email\<close> and \<open>address.zip\<close>), but the pipeline's one 422 error lists the
  field of the params slot only, since the first failing \<open>validateSchema\<close> throws before
  the later slots are validated.
\<close>

theorem validation_stops_at_first_slot:
  "validateSchema user_schema (Some 7) ''body''
     = Inl (ApiErr \<lparr>message = ''Validation failed for body'', status = 422,
                    code = ''VALIDATION_ERROR'',
                    errors = Some [\<lparr>field = ''email'', detail_message = ''Invalid email''\<rparr>,
                                   \<lparr>field = ''address.zip'', detail_message = ''Required''\<rparr>]\<rparr>) \<and>
   fst (runPipeline (validating_input both_schemas) example_world)
     = Inl (ApiErr \<lparr>message = ''Validation failed for params'', status = 422,
                    code = ''VALIDATION_ERROR'',
                    errors = Some [\<lparr>field = ''id'', detail_message = ''Required''\<rparr>]\<rparr>)"
  by (simp add: validating_input_def both_schemas_def id_schema_def user_schema_def
        ok_handler_def ex_defs runPipeline_def runPipeline_steps_def runPipeline_admitted_def
        runPipeline_catch_def authenticate_def tenantScoping_def rateLimiting_def
        validateInput_def validateSlot_def validateSchema_def formatZodErrors_def
        log_to_def audit_enabled_def)

text \<open>
  C2, amended. When at least one configured slot fails validation, the admitted pipeline
  throws a single \<open>ApiError\<close> with status 422 and code \<open>VALIDATION_ERROR\<close> before the
  handler is invoked. It is raised for the first failing slot in the order params, query,
  body; its error list has one entry per issue the validator reports for that slot (not
  just the first issue), each with the issue's path joined by dots (a failure at path
  \<open>email\<close> of the body yields the field \<open>email\<close>). Later slots are not validated.
\<close>

theorem validation_reports_first_failing_slot:
  assumes "validation (options inp) = Some v"
    and "getRawInput inp = Inr raw"
    and "first_failing_slot v raw = Some (name, issues)"
  shows "runPipeline_admitted inp user w =
           (Threw (ApiErr \<lparr>message = ''Validation failed for '' @ name, status = 422,
                           code = ''VALIDATION_ERROR'',
                           errors = Some (map (\<lambda>i. \<lparr>field = join ''.'' (map String_key (path i)),
                                                       detail_message = issue_message i\<rparr>)
                                          issues)\<rparr>) user, w)"
  using assms
  by (auto simp: runPipeline_admitted_def validateInput_def validateSlot_def validateSchema_def
        formatZodErrors_def first_failing_slot_def slot_issues_def
        split: option.splits sum.splits)

theorem validation_reports_first_failing_slot_witness:
  "validation (options (validating_input body_schema_only)) = Some body_schema_only \<and>
   getRawInput (validating_input body_schema_only)
     = Inr \<lparr>in_params = None, in_query = None, in_body = Some 7\<rparr> \<and>
   first_failing_slot body_schema_only \<lparr>in_params = None, in_query = None, in_body = Some 7\<rparr>
     = Some (''body'', [\<lparr>path = [KeyStr ''email''], issue_message = ''Invalid email''\<rparr>,
                \<lparr>path = [KeyStr ''address'', KeyStr ''zip''], issue_message = ''Required''\<rparr>]) \<and>
   runPipeline_admitted (validating_input body_schema_only) ANONYMOUS_USER example_world
     = (Threw (ApiErr \<lparr>message = ''Validation failed for body'', status = 422,
                    code = ''VALIDATION_ERROR'',
                    errors = Some [\<lparr>field = ''email'', detail_message = ''Invalid email''\<rparr>,
                                   \<lparr>field = ''address.zip'', detail_message = ''Required''\<rparr>]\<rparr>)
          ANONYMOUS_USER, example_world)"
proof -
  have h1: "validation (options (validating_input body_schema_only)) = Some body_schema_only"
    by (simp add: validating_input_def plain_input_def no_options_def)
  have h2: "getRawInput (validating_input body_schema_only)
              = Inr \<lparr>in_params = None, in_query = None, in_body = Some 7\<rparr>"
    by (simp add: validating_input_def plain_input_def)
  have h3: "first_failing_slot body_schema_only \<lparr>in_params = None, in_query = None, in_body = Some 7\<rparr>
     = Some (''body'', [\<lparr>path = [KeyStr ''email''], issue_message = ''Invalid email''\<rparr>,
                \<lparr>path = [KeyStr ''address'', KeyStr ''zip''], issue_message = ''Required''\<rparr>])"
    by (simp add: first_failing_slot_def slot_issues_def body_schema_only_def user_schema_def)
  from validation_reports_first_failing_slot [OF h1 h2 h3, of ANONYMOUS_USER example_world]
    h1 h2 h3
  show ?thesis by simp
qed

section \<open>Audit records\<close>

lemma audit_records_append: "audit_records (xs @ ys) = audit_records xs @ audit_records ys"
  by (induction xs rule: audit_records.induct) simp_all

lemma withRetry_loop_audits:
  fixes h :: "('c, 'r, 's) handler" and w :: "('s, 'b) world"
  shows "audit_records (logs (snd (withRetry_loop (runHandler h ctx) config lg rid a le w)))
           = audit_records (logs w)"
proof (induction "runHandler h ctx :: ('s, 'b) world \<Rightarrow> (thrown + 'r) \<times> ('s, 'b) world"
         config lg rid a le w rule: withRetry_loop.induct)
  case (1 config lg rid a le w)
  show ?case
  proof (cases "a \<le> attempts config")
    case False
    then show ?thesis by (simp add: withRetry_loop.simps [of _ _ _ _ a])
  next
    case True
    obtain r d s' where h: "h ctx (app w) = (r, d, s')" by (cases "h ctx (app w)")
    let ?w1 = "w\<lparr>app := s', now := now w + int d, handler_calls := Suc (handler_calls w)\<rparr>"
    have run: "runHandler h ctx w = (r, ?w1)" using h by (simp add: runHandler_def)
    show ?thesis
    proof (cases r)
      case (Inr v)
      with True run show ?thesis by (simp add: withRetry_loop.simps [of _ _ _ _ a])
    next
      case (Inl e)
      show ?thesis
      proof (cases "\<not> shouldRetryThis config e a \<or> a = attempts config")
        case True
        with \<open>a \<le> attempts config\<close> run Inl show ?thesis
          by (simp add: withRetry_loop.simps [of _ _ _ _ a])
      next
        case False
        let ?w2 = "sleep (retry_delay config a) (log_to lg (retry_warning config rid a) ?w1)"
        have IH: "audit_records (logs (snd (withRetry_loop (runHandler h ctx) config lg rid
                     (a + 1) e ?w2))) = audit_records (logs ?w2)"
          by (rule "1.hyps" [OF \<open>a \<le> attempts config\<close> run [symmetric] Inl False])
        have "audit_records (logs ?w2) = audit_records (logs w)"
          by (simp add: sleep_def log_to_def retry_warning_def audit_records_append)
        with IH \<open>a \<le> attempts config\<close> run Inl False show ?thesis
          by (simp add: withRetry_loop.simps [of _ _ _ _ a])
      qed
    qed
  qed
qed

lemma execute_audits:
  "audit_records (logs (snd (executeWithRetryAndTimeout inp ctx w))) = audit_records (logs w)"
proof -
  have h: "audit_records (logs (snd (runHandler (executeHandler inp) ctx w')))
             = audit_records (logs w')" for w'
    by (simp add: runHandler_def split: prod.splits)
  have r: "audit_records (logs (snd (withRetry (runHandler (executeHandler inp) ctx) c lg rid w')))
             = audit_records (logs w')" for c lg rid w'
    by (simp add: withRetry_def withRetry_loop_audits)
  have t: "audit_records (logs (snd (withTimeout p ms w'))) = audit_records (logs (snd (p w')))"
    for p ms w'
    by (simp add: withTimeout_def split: prod.splits)
  show ?thesis
    by (simp add: executeWithRetryAndTimeout_def Let_def h r t split: option.splits)
qed

lemma steps_audits:
  "audit_records (logs (snd (runPipeline_steps inp w))) = audit_records (logs w)"
proof -
  let ?w1 = "log_to (adapter_logger (adapters inp))
               (Info (http_method inp @ '' '' @ path_name inp)
                  [(''requestId'', MStr (requestId inp)),
                   (''method'', MStr (http_method inp)),
                   (''path'', MStr (path_name inp))]) w"
  have start: "audit_records (logs ?w1) = audit_records (logs w)"
    by (simp add: log_to_def audit_records_append)
  obtain ra w2 where au: "authenticate inp ?w1 = (ra, w2)" by (cases "authenticate inp ?w1")
  have l2: "logs w2 = logs ?w1"
    using au by (auto simp: authenticate_def Let_def split: option.splits sum.splits if_splits)
  show ?thesis
  proof (cases ra)
    case (Inl e)
    with au l2 start show ?thesis by (simp add: runPipeline_steps_def)
  next
    case (Inr user)
    show ?thesis
    proof (cases "tenantScoping inp user")
      case (Inl e)
      with au Inr l2 start show ?thesis by (simp add: runPipeline_steps_def)
    next
      case tenant: (Inr x)
      obtain rl w3 where lim: "rateLimiting inp user w2 = (rl, w3)"
        by (cases "rateLimiting inp user w2")
      have l3: "logs w3 = logs w2"
        using lim
        by (auto simp: rateLimiting_def checkRateLimit_def cache_increment_def Let_def
              split: option.splits if_splits)
      show ?thesis
      proof (cases rl)
        case (Some r)
        with au Inr tenant lim l3 l2 start show ?thesis by (simp add: runPipeline_steps_def)
      next
        case None
        have ex: "audit_records (logs w4) = audit_records (logs w3)"
          if "executeWithRetryAndTimeout inp c w3 = (r, w4)" for c r w4
          using execute_audits [of inp c w3] that by simp
        have "audit_records (logs (snd (runPipeline_admitted inp user w3)))
                = audit_records (logs w3)"
          by (auto simp: runPipeline_admitted_def split: sum.splits prod.splits dest: ex)
        with au Inr tenant lim None l3 l2 start show ?thesis
          by (simp add: runPipeline_steps_def)
      qed
    qed
  qed
qed

text \<open>
  C3, as stated, does not hold. The HTTP wrapper with a logger, audit left at its default,
  and a limit of one request per window whose counter already stands at 1: the request is
  rejected with status 429, the handler is not invoked, and the logger receives no audit
  record, since \<open>runPipeline\<close> returns the result of \<open>onRateLimited\<close> directly.
\<close>

theorem rate_limit_rejection_not_audited:
  "audit_enabled limited_api_input \<and>
   map_sum (\<lambda>e. e) resp_status
     (fst (apiWrapper api_config defaultTransformers api_handler one_per_minute get_request
             None ''r1'' busy_world)) = Inr 429 \<and>
   audit_records
     (logs (snd (apiWrapper api_config defaultTransformers api_handler one_per_minute
                   get_request None ''r1'' busy_world))) = [] \<and>
   handler_calls
     (snd (apiWrapper api_config defaultTransformers api_handler one_per_minute
             get_request None ''r1'' busy_world)) = 0"
  by (simp add: apiWrapper_def checkCache_def or_str_def api_defs pipeline_defs Let_def
        api_onRateLimited_def createErrorResponse_def set_header_def tooManyRequests_def
        ApiError_def getEffectiveTransformers_def defaultTransformers_def)

text \<open>
  C3, amended. With audit enabled (the default) and a logger adapter present, steps 1 to 7
  emit no audit record, and then: on the success path exactly one audit record, with
  \<open>success = true\<close> and status 200, is emitted before the success converter runs, whose
  result the pipeline returns; on the failure path (a step throws) exactly one audit
  record, with \<open>success = false\<close> and the failing status and code (500 and
  \<open>INTERNAL_ERROR\<close> for an unstructured error), is emitted before the error converter
  runs, whose outcome is the pipeline's. A rate-limit rejection whose converter returns a
  result (the HTTP shape) is returned as it is, with no audit record.
\<close>

theorem audit_once_per_path:
  assumes "audit_enabled inp"
  shows "audit_records (logs (snd (runPipeline_steps inp w))) = audit_records (logs w) \<and>
    (\<forall>res u w1. runPipeline_steps inp w = (Executed res u, w1) \<longrightarrow>
       (\<exists>w2. audit_records (logs w2)
                = audit_records (logs w) @ [successAudit inp u (now w1 - now w) (now w1)] \<and>
             success (successAudit inp u (now w1 - now w) (now w1)) \<and>
             audit_status (successAudit inp u (now w1 - now w) (now w1)) = 200 \<and>
             (\<forall>r w3. onSuccess inp res (pipelineMeta inp u (now w1 - now w)) w2 = (Inr r, w3) \<longrightarrow>
                     runPipeline inp w = (Inr r, w3)))) \<and>
    (\<forall>e u w1. runPipeline_steps inp w = (Threw e u, w1) \<longrightarrow>
       (\<exists>w2. audit_records (logs w2)
                = audit_records (logs w) @ [failureAudit inp u (now w1 - now w) e (now w1)] \<and>
             \<not> success (failureAudit inp u (now w1 - now w) e (now w1)) \<and>
             audit_status (failureAudit inp u (now w1 - now w) e (now w1))
               = (case e of ApiErr a \<Rightarrow> status a | _ \<Rightarrow> 500) \<and>
             errorCode (failureAudit inp u (now w1 - now w) e (now w1))
               = Some (case e of ApiErr a \<Rightarrow> code a | _ \<Rightarrow> ''INTERNAL_ERROR'') \<and>
             runPipeline inp w = onError inp e (pipelineMeta inp u (now w1 - now w)) w2)) \<and>
    (\<forall>rl u w1 r w2. runPipeline_steps inp w = (RateLimited rl u, w1) \<longrightarrow>
       onRateLimited inp rl w1 = (Inr r, w2) \<longrightarrow> runPipeline inp w = (Inr r, w2))"
proof (intro conjI allI impI)
  show "audit_records (logs (snd (runPipeline_steps inp w))) = audit_records (logs w)"
    by (rule steps_audits)
next
  fix res u w1
  assume st: "runPipeline_steps inp w = (Executed res u, w1)"
  have pre: "audit_records (logs w1) = audit_records (logs w)"
    using steps_audits [of inp w] st by simp
  let ?d = "now w1 - now w"
  let ?w2 = "log_to True (Audit (successAudit inp u ?d (now w1)))
               (log_to (adapter_logger (adapters inp))
                  (Info (http_method inp @ '' '' @ path_name inp @ '' completed'')
                     [(''requestId'', MStr (requestId inp)), (''durationMs'', MNum ?d)]) w1)"
  have a: "audit_records (logs ?w2) = audit_records (logs w) @ [successAudit inp u ?d (now w1)]"
    using pre by (simp add: log_to_def audit_records_append)
  have c: "runPipeline_complete inp (now w) u res w1
             = onSuccess inp res (pipelineMeta inp u ?d) ?w2"
    using assms by (simp add: runPipeline_complete_def Let_def log_to_def)
  have r: "\<forall>r w3. onSuccess inp res (pipelineMeta inp u ?d) ?w2 = (Inr r, w3) \<longrightarrow>
             runPipeline inp w = (Inr r, w3)"
    using st c by (simp add: runPipeline_def)
  show "\<exists>w2. audit_records (logs w2)
                = audit_records (logs w) @ [successAudit inp u (now w1 - now w) (now w1)] \<and>
             success (successAudit inp u (now w1 - now w) (now w1)) \<and>
             audit_status (successAudit inp u (now w1 - now w) (now w1)) = 200 \<and>
             (\<forall>r w3. onSuccess inp res (pipelineMeta inp u (now w1 - now w)) w2 = (Inr r, w3) \<longrightarrow>
                     runPipeline inp w = (Inr r, w3))"
    using a r by (intro exI [of _ ?w2]) (simp add: successAudit_def)
next
  fix e u w1
  assume st: "runPipeline_steps inp w = (Threw e u, w1)"
  have pre: "audit_records (logs w1) = audit_records (logs w)"
    using steps_audits [of inp w] st by simp
  let ?d = "now w1 - now w"
  let ?st = "case e of ApiErr a \<Rightarrow> status a | _ \<Rightarrow> 500"
  let ?w2 = "log_to True (Audit (failureAudit inp u ?d e (now w1)))
               (log_to (adapter_logger (adapters inp))
                  (Info (http_method inp @ '' '' @ path_name inp @ '' '' @ string_of_int ?st)
                     [(''requestId'', MStr (requestId inp)), (''status'', MNum ?st),
                      (''durationMs'', MNum ?d)]) w1)"
  have a: "audit_records (logs ?w2) = audit_records (logs w) @ [failureAudit inp u ?d e (now w1)]"
    using pre by (simp add: log_to_def audit_records_append)
  have c: "runPipeline inp w = onError inp e (pipelineMeta inp u ?d) ?w2"
    using assms st by (simp add: runPipeline_def runPipeline_catch_def Let_def log_to_def)
  show "\<exists>w2. audit_records (logs w2)
                = audit_records (logs w) @ [failureAudit inp u (now w1 - now w) e (now w1)] \<and>
             \<not> success (failureAudit inp u (now w1 - now w) e (now w1)) \<and>
             audit_status (failureAudit inp u (now w1 - now w) e (now w1))
               = (case e of ApiErr a \<Rightarrow> status a | _ \<Rightarrow> 500) \<and>
             errorCode (failureAudit inp u (now w1 - now w) e (now w1))
               = Some (case e of ApiErr a \<Rightarrow> code a | _ \<Rightarrow> ''INTERNAL_ERROR'') \<and>
             runPipeline inp w = onError inp e (pipelineMeta inp u (now w1 - now w)) w2"
    using a c by (intro exI [of _ ?w2]) (simp add: failureAudit_def)
next
  fix rl u w1 r w2
  assume "runPipeline_steps inp w = (RateLimited rl u, w1)"
    and "onRateLimited inp rl w1 = (Inr r, w2)"
  then show "runPipeline inp w = (Inr r, w2)" by (simp add: runPipeline_def)
qed

theorem audit_once_per_path_witness:
  "audit_enabled logged_input \<and>
   fst (runPipeline_steps logged_input example_world) = Executed 7 ANONYMOUS_USER \<and>
   audit_records (logs (snd (runPipeline logged_input example_world)))
     = [successAudit logged_input ANONYMOUS_USER 5 1005] \<and>
   audit_enabled logged_failing_input \<and>
   fst (runPipeline_steps logged_failing_input example_world)
     = Threw (ApiErr (ApiError ''Resource not found'' 404 ''NOT_FOUND'')) ANONYMOUS_USER \<and>
   audit_records (logs (snd (runPipeline logged_failing_input example_world)))
     = [failureAudit logged_failing_input ANONYMOUS_USER 5
          (ApiErr (ApiError ''Resource not found'' 404 ''NOT_FOUND'')) 1005] \<and>
   audit_status (failureAudit logged_failing_input ANONYMOUS_USER 5
          (ApiErr (ApiError ''Resource not found'' 404 ''NOT_FOUND'')) 1005) = 404 \<and>
   audit_enabled limited_api_input \<and>
   fst (runPipeline_steps limited_api_input busy_world)
     = RateLimited \<lparr>rl_allowed = False, limit = 1, rl_resetAt = 61000\<rparr> ANONYMOUS_USER \<and>
   audit_records (logs (snd (runPipeline limited_api_input busy_world))) = []"
proof -
  \<comment> \<open>the success path\<close>
  have e1: "audit_enabled logged_input"
    by (simp add: audit_enabled_def logged_input_def plain_input_def no_options_def
          logged_adapters_def)
  have s1: "runPipeline_steps logged_input example_world
              = (Executed 7 ANONYMOUS_USER, snd (runPipeline_steps logged_input example_world))"
    and n1: "now (snd (runPipeline_steps logged_input example_world)) - now example_world = 5"
    and t1: "now (snd (runPipeline_steps logged_input example_world)) = 1005"
    and l1: "audit_records (logs example_world) = []"
    by (simp_all add: logged_input_def logged_adapters_def ok_handler_def ex_defs pipeline_defs
          Let_def)
  from audit_once_per_path [OF e1, of example_world] s1 obtain w2 where
    a1: "audit_records (logs w2) = audit_records (logs example_world) @
           [successAudit logged_input ANONYMOUS_USER
              (now (snd (runPipeline_steps logged_input example_world)) - now example_world)
              (now (snd (runPipeline_steps logged_input example_world)))]"
    and r1: "\<forall>r w3. onSuccess logged_input 7
               (pipelineMeta logged_input ANONYMOUS_USER
                  (now (snd (runPipeline_steps logged_input example_world)) - now example_world))
               w2 = (Inr r, w3) \<longrightarrow> runPipeline logged_input example_world = (Inr r, w3)"
    by blast
  have "onSuccess logged_input 7
          (pipelineMeta logged_input ANONYMOUS_USER
             (now (snd (runPipeline_steps logged_input example_world)) - now example_world))
          w2 = (Inr 7, w2)"
    by (simp add: logged_input_def plain_input_def)
  with r1 have "runPipeline logged_input example_world = (Inr 7, w2)" by blast
  with a1 n1 t1 l1 have c1: "audit_records (logs (snd (runPipeline logged_input example_world)))
                      = [successAudit logged_input ANONYMOUS_USER 5 1005]"
    by simp
  \<comment> \<open>the failure path\<close>
  let ?e = "ApiErr (ApiError ''Resource not found'' 404 ''NOT_FOUND'')"
  have e2: "audit_enabled logged_failing_input"
    by (simp add: audit_enabled_def logged_failing_input_def plain_input_def no_options_def
          logged_adapters_def)
  have s2: "runPipeline_steps logged_failing_input example_world
              = (Threw ?e ANONYMOUS_USER, snd (runPipeline_steps logged_failing_input example_world))"
    and n2: "now (snd (runPipeline_steps logged_failing_input example_world)) - now example_world = 5"
    and t2: "now (snd (runPipeline_steps logged_failing_input example_world)) = 1005"
    by (simp_all add: logged_failing_input_def logged_adapters_def failing_handler_def ex_defs
          pipeline_defs Let_def)
  from audit_once_per_path [OF e2, of example_world] s2 obtain w2' where
    a2: "audit_records (logs w2') = audit_records (logs example_world) @
           [failureAudit logged_failing_input ANONYMOUS_USER
              (now (snd (runPipeline_steps logged_failing_input example_world)) - now example_world)
              ?e (now (snd (runPipeline_steps logged_failing_input example_world)))]"
    and r2: "runPipeline logged_failing_input example_world
               = onError logged_failing_input ?e
                   (pipelineMeta logged_failing_input ANONYMOUS_USER
                      (now (snd (runPipeline_steps logged_failing_input example_world))
                         - now example_world)) w2'"
    by blast
  have "runPipeline logged_failing_input example_world = (Inl ?e, w2')"
    unfolding r2 by (simp add: logged_failing_input_def plain_input_def)
  with a2 n2 t2 l1 have c2: "audit_records (logs (snd (runPipeline logged_failing_input example_world)))
             = [failureAudit logged_failing_input ANONYMOUS_USER 5 ?e 1005]"
    by simp
  have st2: "audit_status (failureAudit logged_failing_input ANONYMOUS_USER 5 ?e 1005) = 404"
    by (simp add: failureAudit_def ApiError_def)
  \<comment> \<open>a rate-limit rejection in the HTTP shape\<close>
  have e3: "audit_enabled limited_api_input"
    by (simp add: audit_enabled_def api_defs Let_def)
  have s3: "runPipeline_steps limited_api_input busy_world
              = (RateLimited \<lparr>rl_allowed = False, limit = 1, rl_resetAt = 61000\<rparr> ANONYMOUS_USER,
                 snd (runPipeline_steps limited_api_input busy_world))"
    and l3: "audit_records (logs (snd (runPipeline_steps limited_api_input busy_world))) = []"
    by (simp_all add: api_defs pipeline_defs Let_def)
  have o3: "onRateLimited limited_api_input
              \<lparr>rl_allowed = False, limit = 1, rl_resetAt = 61000\<rparr>
              (snd (runPipeline_steps limited_api_input busy_world))
            = (Inr (api_onRateLimited (getEffectiveTransformers None defaultTransformers)
                      defaultTransformers \<lparr>rl_allowed = False, limit = 1, rl_resetAt = 61000\<rparr>
                      ''r1'' (snd (runPipeline_steps limited_api_input busy_world))),
               snd (runPipeline_steps limited_api_input busy_world))"
    by (simp add: limited_api_input_def api_pipeline_input_def api_config_def Let_def)
  from audit_once_per_path [OF e3, of busy_world] s3 o3
  have "runPipeline limited_api_input busy_world
          = (Inr (api_onRateLimited (getEffectiveTransformers None defaultTransformers)
                      defaultTransformers \<lparr>rl_allowed = False, limit = 1, rl_resetAt = 61000\<rparr>
                      ''r1'' (snd (runPipeline_steps limited_api_input busy_world))),
             snd (runPipeline_steps limited_api_input busy_world))"
    by blast
  with l3 have c3: "audit_records (logs (snd (runPipeline limited_api_input busy_world))) = []"
    by simp
  from e1 s1 c1 e2 s2 c2 st2 e3 s3 c3 show ?thesis
    by (metis fst_conv)
qed

section \<open>Configuration errors\<close>

lemma runPipeline_catch_shape:
  "\<exists>w2. runPipeline_catch inp st u e w1 = onError inp e (pipelineMeta inp u (now w1 - st)) w2 \<and>
        handler_calls w2 = handler_calls w1"
  unfolding runPipeline_catch_def Let_def
  by (rule exI, rule conjI, rule refl) (simp add: log_to_def)

text \<open>
  C4, as stated, does not hold. A route that requires authentication, wrapped by an HTTP
  wrapper with no auth adapter: the configuration error does not leave the pipeline as an
  exception. It is caught by the \<open>catch\<close> block like any other error that is not an
  \<open>ApiError\<close>, and the caller receives the structured 500 response. The handler is not
  invoked.
\<close>

theorem config_error_becomes_response:
  "fst (apiWrapper bare_config defaultTransformers api_handler auth_required get_request
          None ''r1'' idle_world)
     = Inr \<lparr>body = ErrorEnvelope ''Internal server error'' ''INTERNAL_ERROR'' None,
            resp_status = 500,
            headers = [''Content-Type'' \<mapsto> ''application/json'', ''X-Request-ID'' \<mapsto> ''r1'']\<rparr> \<and>
   handler_calls
     (snd (apiWrapper bare_config defaultTransformers api_handler auth_required get_request
             None ''r1'' idle_world)) = 0"
  by (simp add: apiWrapper_def checkCache_def or_str_def unwired_defs pipeline_defs Let_def
        response_defs)

text \<open>
  C4, amended. When a required adapter capability is missing (auth required but no auth
  adapter configured, or \<open>tenantScoped\<close> enabled, authentication passed, and the auth
  adapter absent or without \<open>isTenantValid\<close>), the configuration error is thrown before
  the handler is invoked, so it is never retried; it is caught at the pipeline's \<open>catch\<close>
  block and handed to the error converter as an error that is not an \<open>ApiError\<close>. The
  HTTP converter turns it into the 500 \<open>INTERNAL_ERROR\<close> response and the action
  converter throws the 500 \<open>INTERNAL_ERROR\<close> \<open>ApiError\<close> in its place: the original error
  does not propagate past the pipeline.
\<close>

theorem config_error_is_caught:
  assumes "(auth (options inp) \<noteq> None \<and> adapter_auth (adapters inp) = None) \<or>
           (tenantScoped (options inp) \<and>
            (case adapter_auth (adapters inp) of None \<Rightarrow> None | Some a \<Rightarrow> isTenantValid a) = None \<and>
            (\<exists>u. \<forall>w0. fst (authenticate inp w0) = Inr u))"
  shows "(\<exists>m u w1 w2.
            runPipeline_steps inp w = (Threw (PlainError ''Error'' m) u, w1) \<and>
            handler_calls w1 = handler_calls w \<and>
            runPipeline inp w
              = onError inp (PlainError ''Error'' m) (pipelineMeta inp u (now w1 - now w)) w2 \<and>
            handler_calls w2 = handler_calls w) \<and>
         (\<forall>m t g lg rid w'.
            fst (api_onError t g lg (PlainError ''Error'' m) rid w')
              = set_header ''X-Request-ID'' rid (createErrorResponse internalError (Some t) g)) \<and>
         (\<forall>m lg rid w'.
            fst (action_onError lg (PlainError ''Error'' m) rid w') = Inl (ApiErr internalError)) \<and>
         status internalError = 500 \<and> code internalError = ''INTERNAL_ERROR''"
proof -
  let ?w0 = "log_to (adapter_logger (adapters inp))
               (Info (http_method inp @ '' '' @ path_name inp)
                  [(''requestId'', MStr (requestId inp)),
                   (''method'', MStr (http_method inp)),
                   (''path'', MStr (path_name inp))]) w"
  have conv: "(\<forall>m t g lg rid w'.
            fst (api_onError t g lg (PlainError ''Error'' m) rid w')
              = set_header ''X-Request-ID'' rid (createErrorResponse internalError (Some t) g)) \<and>
         (\<forall>m lg rid w'.
            fst (action_onError lg (PlainError ''Error'' m) rid w') = Inl (ApiErr internalError)) \<and>
         status internalError = 500 \<and> code internalError = ''INTERNAL_ERROR''"
    by (simp add: api_onError_def action_onError_def internalError_def ApiError_def)
  have caught: "\<exists>w2. runPipeline inp w
                   = onError inp (PlainError ''Error'' m) (pipelineMeta inp u (now w1 - now w)) w2 \<and>
                 handler_calls w2 = handler_calls w"
    if "runPipeline_steps inp w = (Threw (PlainError ''Error'' m) u, w1)"
      and "handler_calls w1 = handler_calls w" for m u w1
  proof -
    have "runPipeline inp w = runPipeline_catch inp (now w) u (PlainError ''Error'' m) w1"
      using that by (simp add: runPipeline_def)
    with runPipeline_catch_shape [of inp "now w" u "PlainError ''Error'' m" w1] that(2)
    show ?thesis by auto
  qed
  have steps: "\<exists>m u w1. runPipeline_steps inp w = (Threw (PlainError ''Error'' m) u, w1) \<and>
                 handler_calls w1 = handler_calls w"
    using assms
  proof
    assume "auth (options inp) \<noteq> None \<and> adapter_auth (adapters inp) = None"
    then have "runPipeline_steps inp w
                 = (Threw (PlainError ''Error''
                      ''Auth adapter not configured but auth is required'') ANONYMOUS_USER, ?w0)"
      by (auto simp: runPipeline_steps_def authenticate_def Let_def)
    moreover have "handler_calls ?w0 = handler_calls w" by (simp add: log_to_def)
    ultimately show ?thesis by blast
  next
    assume t: "tenantScoped (options inp) \<and>
            (case adapter_auth (adapters inp) of None \<Rightarrow> None | Some a \<Rightarrow> isTenantValid a) = None \<and>
            (\<exists>u. \<forall>w0. fst (authenticate inp w0) = Inr u)"
    then obtain u where u: "\<forall>w0. fst (authenticate inp w0) = Inr u" by blast
    obtain w1 where au: "authenticate inp ?w0 = (Inr u, w1)"
      using u by (metis prod.collapse)
    have h1: "handler_calls w1 = handler_calls w"
      using au
      by (auto simp: authenticate_def Let_def log_to_def split: option.splits sum.splits if_splits)
    have "tenantScoping inp u
            = Inl (PlainError ''Error''
                ''isTenantValid must be defined in auth adapter when tenantScoped is true'')"
      using t by (simp add: tenantScoping_def)
    with au have "runPipeline_steps inp w
                 = (Threw (PlainError ''Error''
                      ''isTenantValid must be defined in auth adapter when tenantScoped is true'') u, w1)"
      by (simp add: runPipeline_steps_def Let_def)
    with h1 show ?thesis by blast
  qed
  then obtain m u w1 where s: "runPipeline_steps inp w = (Threw (PlainError ''Error'' m) u, w1)"
    and h: "handler_calls w1 = handler_calls w" by blast
  from caught [OF s h] obtain w2 where
    c: "runPipeline inp w
          = onError inp (PlainError ''Error'' m) (pipelineMeta inp u (now w1 - now w)) w2"
    and h2: "handler_calls w2 = handler_calls w" by blast
  from s h c h2 have "\<exists>m u w1 w2.
            runPipeline_steps inp w = (Threw (PlainError ''Error'' m) u, w1) \<and>
            handler_calls w1 = handler_calls w \<and>
            runPipeline inp w
              = onError inp (PlainError ''Error'' m) (pipelineMeta inp u (now w1 - now w)) w2 \<and>
            handler_calls w2 = handler_calls w"
    by blast
  from this conv show ?thesis by (rule conjI)
qed

theorem config_error_is_caught_witness:
  "auth (options (unwired_api_input auth_required)) \<noteq> None \<and>
   adapter_auth (adapters (unwired_api_input auth_required)) = None \<and>
   fst (runPipeline (unwired_api_input auth_required) idle_world)
     = Inr \<lparr>body = ErrorEnvelope ''Internal server error'' ''INTERNAL_ERROR'' None,
            resp_status = 500,
            headers = [''Content-Type'' \<mapsto> ''application/json'', ''X-Request-ID'' \<mapsto> ''r1'']\<rparr> \<and>
   tenantScoped (options (unwired_api_input tenant_scoped)) \<and>
   (case adapter_auth (adapters (unwired_api_input tenant_scoped)) of
      None \<Rightarrow> None | Some a \<Rightarrow> isTenantValid a) = None \<and>
   fst (authenticate (unwired_api_input tenant_scoped) idle_world) = Inr ANONYMOUS_USER \<and>
   fst (runPipeline (unwired_api_input tenant_scoped) idle_world)
     = Inr \<lparr>body = ErrorEnvelope ''Internal server error'' ''INTERNAL_ERROR'' None,
            resp_status = 500,
            headers = [''Content-Type'' \<mapsto> ''application/json'', ''X-Request-ID'' \<mapsto> ''r1'']\<rparr>"
proof -
  let ?resp = "\<lparr>body = ErrorEnvelope ''Internal server error'' ''INTERNAL_ERROR'' None,
            resp_status = 500,
            headers = [''Content-Type'' \<mapsto> ''application/json'', ''X-Request-ID'' \<mapsto> ''r1'']\<rparr>
            :: nat envelope response"
  have conv: "fst (onError (unwired_api_input opts) e m w2)
                = Inr (fst (api_onError (getEffectiveTransformers None defaultTransformers)
                              defaultTransformers False e ''r1'' w2))" for opts e m w2
    by (simp add: unwired_api_input_def api_pipeline_input_def bare_config_def no_adapters_def
          Let_def split: prod.splits)
  have resp: "set_header ''X-Request-ID'' ''r1''
                (createErrorResponse internalError
                   (Some (getEffectiveTransformers None defaultTransformers)) defaultTransformers)
              = ?resp"
    by (simp add: response_defs)
  have a1: "auth (options (unwired_api_input auth_required)) \<noteq> None"
    and a2: "adapter_auth (adapters (unwired_api_input auth_required)) = None"
    by (simp_all add: unwired_defs Let_def)
  from config_error_is_caught [OF disjI1, OF conjI, OF a1 a2, of idle_world, THEN conjunct1]
  obtain m u and w1 w2 :: "(nat, nat envelope) world" where
    "runPipeline (unwired_api_input auth_required) idle_world
       = onError (unwired_api_input auth_required) (PlainError ''Error'' m)
           (pipelineMeta (unwired_api_input auth_required) u (now w1 - now idle_world)) w2"
    by blast
  then have c1: "fst (runPipeline (unwired_api_input auth_required) idle_world) = Inr ?resp"
    by (simp add: conv resp [symmetric] api_onError_def)
  have b1: "tenantScoped (options (unwired_api_input tenant_scoped))"
    and b2: "(case adapter_auth (adapters (unwired_api_input tenant_scoped)) of
                None \<Rightarrow> None | Some a \<Rightarrow> isTenantValid a) = None"
    and b3: "\<forall>w0. fst (authenticate (unwired_api_input tenant_scoped) w0) = Inr ANONYMOUS_USER"
    by (simp_all add: unwired_defs authenticate_def Let_def)
  from b3 have b3': "\<exists>u. \<forall>w0. fst (authenticate (unwired_api_input tenant_scoped) w0) = Inr u"
    by blast
  from config_error_is_caught [OF disjI2, OF conjI, OF b1, OF conjI, OF b2 b3', of idle_world,
         THEN conjunct1]
  obtain m' u' and w1' w2' :: "(nat, nat envelope) world" where
    "runPipeline (unwired_api_input tenant_scoped) idle_world
       = onError (unwired_api_input tenant_scoped) (PlainError ''Error'' m')
           (pipelineMeta (unwired_api_input tenant_scoped) u' (now w1' - now idle_world)) w2'"
    by blast
  then have c2: "fst (runPipeline (unwired_api_input tenant_scoped) idle_world) = Inr ?resp"
    by (simp add: conv resp [symmetric] api_onError_def)
  from a1 a2 c1 b1 b2 b3 c2 show ?thesis by blast
qed

section \<open>The response cache\<close>





section \<open>Unstructured errors\<close>



section \<open>Rate limiting\<close>







section \<open>Authentication and authorization\<close>

text \<open>
  C9. With an auth requirement configured (and the auth adapter and the auth context
  available): when \<open>verify\<close> returns null the step throws the Unauthorized failure (401),
  which ends the pipeline's steps; when it returns a principal and the role list is empty
  the principal is admitted; when the role list is not empty the principal is admitted
  iff \<open>hasRole\<close> returns true, and otherwise the Forbidden failure (403) is thrown.
\<close>

theorem authentication_outcomes:
  assumes "auth (options inp) = Some roles"
    and "adapter_auth (adapters inp) = Some a"
    and "getAuthContext inp = Inr c"
  shows "(verify a c = None \<longrightarrow>
            fst (authenticate inp w) = Inl (ApiErr unauthorized) \<and>
            fst (runPipeline_steps inp w) = Threw (ApiErr unauthorized) ANONYMOUS_USER) \<and>
         status unauthorized = 401 \<and> code unauthorized = ''UNAUTHORIZED'' \<and>
         (\<forall>u. verify a c = Some u \<and> roles = [] \<longrightarrow> fst (authenticate inp w) = Inr u) \<and>
         (\<forall>u. verify a c = Some u \<and> roles \<noteq> [] \<longrightarrow>
            (fst (authenticate inp w) = Inr u) = hasRole a u roles \<and>
            (\<not> hasRole a u roles \<longrightarrow>
               fst (authenticate inp w) = Inl (ApiErr (forbidden ''Access denied'')) \<and>
               fst (runPipeline_steps inp w)
                 = Threw (ApiErr (forbidden ''Access denied'')) ANONYMOUS_USER)) \<and>
         status (forbidden ''Access denied'') = 403 \<and>
         code (forbidden ''Access denied'') = ''FORBIDDEN''"
proof -
  have thrown: "fst (runPipeline_steps inp w0) = Threw e ANONYMOUS_USER"
    if "\<forall>w'. fst (authenticate inp w') = Inl e" for e w0
  proof -
    let ?w1 = "log_to (adapter_logger (adapters inp))
                 (Info (http_method inp @ '' '' @ path_name inp)
                    [(''requestId'', MStr (requestId inp)),
                     (''method'', MStr (http_method inp)),
                     (''path'', MStr (path_name inp))]) w0"
    from that obtain w2 where "authenticate inp ?w1 = (Inl e, w2)"
      by (metis prod.collapse)
    then show ?thesis by (simp add: runPipeline_steps_def Let_def)
  qed
  have none: "verify a c = None \<longrightarrow> (\<forall>w'. fst (authenticate inp w') = Inl (ApiErr unauthorized))"
    using assms by (simp add: authenticate_def Let_def)
  have deny: "\<forall>u. verify a c = Some u \<and> roles \<noteq> [] \<and> \<not> hasRole a u roles \<longrightarrow>
                (\<forall>w'. fst (authenticate inp w') = Inl (ApiErr (forbidden ''Access denied'')))"
    using assms by (simp add: authenticate_def Let_def)
  have admit: "\<forall>u. verify a c = Some u \<and> (roles = [] \<or> hasRole a u roles) \<longrightarrow>
                 fst (authenticate inp w) = Inr u"
    using assms by (auto simp: authenticate_def Let_def)
  have codes: "status unauthorized = 401 \<and> code unauthorized = ''UNAUTHORIZED'' \<and>
                status (forbidden ''Access denied'') = 403 \<and>
                code (forbidden ''Access denied'') = ''FORBIDDEN''"
    by (simp add: unauthorized_def forbidden_def ApiError_def)
  from none deny admit codes thrown show ?thesis
    by (intro conjI allI impI) (auto simp del: not_None_eq)
qed

theorem authentication_outcomes_witness:
  "auth (options (guarded_input [] None)) = Some [] \<and>
   adapter_auth (adapters (guarded_input [] None)) = Some bearer_adapter \<and>
   getAuthContext (guarded_input [] None) = Inr no_token \<and>
   verify bearer_adapter no_token = None \<and>
   fst (runPipeline_steps (guarded_input [] None) example_world)
     = Threw (ApiErr unauthorized) ANONYMOUS_USER \<and>
   auth (options (guarded_input [] (Some ''user''))) = Some [] \<and>
   adapter_auth (adapters (guarded_input [] (Some ''user''))) = Some bearer_adapter \<and>
   getAuthContext (guarded_input [] (Some ''user'')) = Inr (token ''user'') \<and>
   verify bearer_adapter (token ''user'') = Some (principal ''user'') \<and>
   fst (authenticate (guarded_input [] (Some ''user'')) example_world) = Inr (principal ''user'') \<and>
   auth (options (guarded_input [''admin''] (Some ''user''))) = Some [''admin''] \<and>
   adapter_auth (adapters (guarded_input [''admin''] (Some ''user''))) = Some bearer_adapter \<and>
   getAuthContext (guarded_input [''admin''] (Some ''user'')) = Inr (token ''user'') \<and>
   \<not> hasRole bearer_adapter (principal ''user'') [''admin''] \<and>
   fst (runPipeline_steps (guarded_input [''admin''] (Some ''user'')) example_world)
     = Threw (ApiErr (forbidden ''Access denied'')) ANONYMOUS_USER \<and>
   auth (options (guarded_input [''admin''] (Some ''admin''))) = Some [''admin''] \<and>
   adapter_auth (adapters (guarded_input [''admin''] (Some ''admin''))) = Some bearer_adapter \<and>
   getAuthContext (guarded_input [''admin''] (Some ''admin'')) = Inr (token ''admin'') \<and>
   verify bearer_adapter (token ''admin'') = Some (principal ''admin'') \<and>
   hasRole bearer_adapter (principal ''admin'') [''admin''] \<and>
   fst (authenticate (guarded_input [''admin''] (Some ''admin'')) example_world)
     = Inr (principal ''admin'')"
proof -
  have a1: "auth (options (guarded_input [] None)) = Some []"
    and a2: "adapter_auth (adapters (guarded_input [] None)) = Some bearer_adapter"
    and a3: "getAuthContext (guarded_input [] None) = Inr no_token"
    and a4: "verify bearer_adapter no_token = None"
    by (simp_all add: guarded_defs)
  from authentication_outcomes [OF a1 a2 a3, of example_world] a4
  have c1: "fst (runPipeline_steps (guarded_input [] None) example_world)
              = Threw (ApiErr unauthorized) ANONYMOUS_USER"
    by blast
  have b1: "auth (options (guarded_input [] (Some ''user''))) = Some []"
    and b2: "adapter_auth (adapters (guarded_input [] (Some ''user''))) = Some bearer_adapter"
    and b3: "getAuthContext (guarded_input [] (Some ''user'')) = Inr (token ''user'')"
    and b4: "verify bearer_adapter (token ''user'') = Some (principal ''user'')"
    by (simp_all add: guarded_defs)
  from authentication_outcomes [OF b1 b2 b3, of example_world] b4
  have c2: "fst (authenticate (guarded_input [] (Some ''user'')) example_world)
              = Inr (principal ''user'')"
    by blast
  have d1: "auth (options (guarded_input [''admin''] (Some ''user''))) = Some [''admin'']"
    and d2: "adapter_auth (adapters (guarded_input [''admin''] (Some ''user''))) = Some bearer_adapter"
    and d3: "getAuthContext (guarded_input [''admin''] (Some ''user'')) = Inr (token ''user'')"
    and d4: "\<not> hasRole bearer_adapter (principal ''user'') [''admin'']"
    and d5: "[''admin''] \<noteq> ([] :: string list)"
    by (simp_all add: guarded_defs)
  from authentication_outcomes [OF d1 d2 d3, of example_world] b4 d4 d5
  have c3: "fst (runPipeline_steps (guarded_input [''admin''] (Some ''user'')) example_world)
              = Threw (ApiErr (forbidden ''Access denied'')) ANONYMOUS_USER"
    by blast
  have e1: "auth (options (guarded_input [''admin''] (Some ''admin''))) = Some [''admin'']"
    and e2: "adapter_auth (adapters (guarded_input [''admin''] (Some ''admin''))) = Some bearer_adapter"
    and e3: "getAuthContext (guarded_input [''admin''] (Some ''admin'')) = Inr (token ''admin'')"
    and e4: "verify bearer_adapter (token ''admin'') = Some (principal ''admin'')"
    and e5: "hasRole bearer_adapter (principal ''admin'') [''admin'']"
    by (simp_all add: guarded_defs)
  from authentication_outcomes [OF e1 e2 e3, of example_world] e4 e5 d5
  have c4: "fst (authenticate (guarded_input [''admin''] (Some ''admin'')) example_world)
              = Inr (principal ''admin'')"
    by blast
  from a1 a2 a3 a4 c1 b1 b2 b3 b4 c2 d1 d2 d3 d4 c3 e1 e2 e3 e4 e5 c4
  show ?thesis by blast
qed

end
